theory Spec2Isabelle
  imports Main "HOL-Library.Word"
begin

section \<open>The typed REST client of the Porkbun provider\<close>

text \<open>
  A shallow embedding of package \<^verbatim>\<open>internal/porkbun\<close> (the client, its wire and domain
  structs and their converters) and of the domain-list data source of package
  \<^verbatim>\<open>internal/provider\<close>. Go structs are records, \<^verbatim>\<open>int64\<close> is \<open>64 word\<close> read through
  \<open>sint\<close>, a pointer \<^verbatim>\<open>*int64\<close> is an option, \<^verbatim>\<open>json.Number\<close> is the string it holds, and
  a pair \<^verbatim>\<open>(value, error)\<close> is a sum with the error on the left. Record fields are global
  constants in Isabelle, so every field carries the name of its struct in front
  (\<open>domain_NotLocal\<close> is field \<^verbatim>\<open>NotLocal\<close> of the wire struct \<^verbatim>\<open>domain\<close>, \<open>Domain_NotLocal\<close>
  the one of the exported struct \<^verbatim>\<open>Domain\<close>); \<^verbatim>\<open>Credentials\<close> and \<^verbatim>\<open>Status\<close> keep their
  field names.
\<close>

subsection \<open>Credentials and the status envelope\<close>

record Credentials =
  APIKey :: string
  SecretAPIKey :: string

record Status =
  Status :: string
  Message :: string

text \<open>
  The interface \<^verbatim>\<open>status\<close> is implemented by \<^verbatim>\<open>*Status\<close> and so by every response struct that
  embeds \<^verbatim>\<open>Status\<close>: in the model, every record that extends \<open>Status\<close>.
\<close>

definition getStatus :: "'a Status_scheme \<Rightarrow> string" where
  "getStatus s = Status s"

definition getMessage :: "'a Status_scheme \<Rightarrow> string" where
  "getMessage s = Message s"

subsection \<open>Errors and panics\<close>

text \<open>
  What \<^verbatim>\<open>strconv.ParseInt\<close> reports: a \<^verbatim>\<open>*strconv.NumError\<close> with the function name, the
  input and one of the two causes.
\<close>

datatype num_cause = ErrSyntax | ErrRange

datatype NumError = NumError (Func: string) (Num: string) (Err: num_cause)

text \<open>
  Every error of the client is made by \<^verbatim>\<open>fmt.Errorf\<close>; there is one constructor for each
  call of it, carrying the arguments of the format string. \<open>Error\<close> below is the text the
  Go value returns from its \<^verbatim>\<open>Error()\<close> method.
\<close>

datatype go_error =
    FailedToMarshal string
  | FailedToCreateRequest string
  | FailedToProcessRequest string
  | FailedToReadBody string
  | FailedToUnmarshal string
  | ErrorStatus string
  | UnknownStatus string
  | ExpectedSecurityLock string
  | ExpectedWhoisPrivacy string
  | ExpectedAutoRenew string
  | ExpectedNotLocal string
  | FailedToParseId NumError
  | FailedToParseTtl NumError
  | FailedToParsePriority NumError
  | ExpectedIncludePath string
  | ExpectedWildcard string

definition apostrophe :: string where
  "apostrophe = [CHR 0x27]"

definition num_cause_Error :: "num_cause \<Rightarrow> string" where
  "num_cause_Error c = (case c of ErrSyntax \<Rightarrow> ''invalid syntax'' | ErrRange \<Rightarrow> ''value out of range'')"

text \<open>
  \<^verbatim>\<open>(*NumError).Error\<close> quotes the input with \<^verbatim>\<open>strconv.Quote\<close>, which is taken as the
  parameter \<open>quote\<close>.
\<close>

definition NumError_Error :: "(string \<Rightarrow> string) \<Rightarrow> NumError \<Rightarrow> string" where
  "NumError_Error quote e =
     ''strconv.'' @ Func e @ '': parsing '' @ quote (Num e) @ '': '' @ num_cause_Error (Err e)"

definition expected_1_or_0 :: "string \<Rightarrow> string \<Rightarrow> string" where
  "expected_1_or_0 what got =
     ''Expected '' @ what @ '' of '1' or '0', got '' @ apostrophe @ got @ apostrophe @ ''.''"

definition expected_yes_or_no :: "string \<Rightarrow> string \<Rightarrow> string" where
  "expected_yes_or_no what got =
     ''Expected '' @ what @ '' of 'yes' or 'no', got: '' @ apostrophe @ got @ apostrophe @ ''.''"

definition failed_to_parse :: "string \<Rightarrow> string \<Rightarrow> string" where
  "failed_to_parse what err =
     ''Failed to parse '' @ what @ '' as an integer with the following error: ''
       @ apostrophe @ err @ apostrophe @ ''.''"

fun Error :: "(string \<Rightarrow> string) \<Rightarrow> go_error \<Rightarrow> string" where
  "Error quote (FailedToMarshal err) =
     ''Failed to marshal an API request as JSON with the following error: '' @ err"
| "Error quote (FailedToCreateRequest err) =
     ''Failed to create an HTPP request with the following error: '' @ err"
| "Error quote (FailedToProcessRequest err) =
     ''Failed to process an HTTP request with the following error: '' @ err"
| "Error quote (FailedToReadBody err) =
     ''Failed to read response body with the following error: '' @ err"
| "Error quote (FailedToUnmarshal err) =
     ''Failed to unmarshal an API response as JSON with the following error: '' @ err"
| "Error quote (ErrorStatus message) =
     ''Received 'ERROR' response status with the following message: '' @ message"
| "Error quote (UnknownStatus status) =
     ''Received unknown response status. Expected 'SUCCESS' or 'ERROR', got: ''
       @ apostrophe @ status @ apostrophe @ ''.''"
| "Error quote (ExpectedSecurityLock got) = expected_1_or_0 ''security lock'' got"
| "Error quote (ExpectedWhoisPrivacy got) = expected_1_or_0 ''whois privacy'' got"
| "Error quote (ExpectedAutoRenew got) = expected_1_or_0 ''auto renew'' got"
| "Error quote (ExpectedNotLocal got) = expected_1_or_0 ''not local'' got"
| "Error quote (FailedToParseId err) = failed_to_parse ''id'' (NumError_Error quote err)"
| "Error quote (FailedToParseTtl err) = failed_to_parse ''ttl'' (NumError_Error quote err)"
| "Error quote (FailedToParsePriority err) =
     failed_to_parse ''priority'' (NumError_Error quote err)"
| "Error quote (ExpectedIncludePath got) = expected_yes_or_no ''include path'' got"
| "Error quote (ExpectedWildcard got) = expected_yes_or_no ''wildcard'' got"

text \<open>
  A Go function either returns or panics; a panic unwinds through every caller of the
  client, none of which recovers.
\<close>

datatype 'a result = Return 'a | Panic string

definition nil_dereference :: string where
  "nil_dereference = ''runtime error: invalid memory address or nil pointer dereference''"

subsection \<open>Decimal integers: \<^verbatim>\<open>strconv.FormatInt\<close> and \<^verbatim>\<open>strconv.ParseInt\<close>\<close>

text \<open>
  The two functions belong to the Go standard library, not to the repository; they are
  written out for base 10 and 64 bits, the only way the client calls them.
  \<open>formatBits\<close> prints an unsigned value, most significant digit first.
\<close>

definition digit_char :: "nat \<Rightarrow> char" where
  "digit_char d = ''0123456789'' ! d"

fun formatBits :: "nat \<Rightarrow> string" where
  "formatBits u =
     (if u < 10 then [digit_char u] else formatBits (u div 10) @ [digit_char (u mod 10)])"

declare formatBits.simps [simp del]

definition FormatInt :: "64 word \<Rightarrow> string" where
  "FormatInt i =
     (if sint i < 0 then CHR ''-'' # formatBits (nat (- sint i)) else formatBits (nat (sint i)))"

definition digit_val :: "char \<Rightarrow> nat option" where
  "digit_val c =
     (let v = (of_char c :: nat) in if 48 \<le> v \<and> v \<le> 57 then Some (v - 48) else None)"

text \<open>
  The digit loop of \<^verbatim>\<open>ParseUint\<close>. The accumulator is a \<^verbatim>\<open>uint64\<close>; Go tests
  \<^verbatim>\<open>n >= cutoff\<close> before multiplying and \<^verbatim>\<open>n1 < n\<close> after adding, which is the test
  \<open>n * 10 + d > 2 ^ 64 - 1\<close> on natural numbers.
\<close>

fun parse_digits :: "nat \<Rightarrow> string \<Rightarrow> num_cause + nat" where
  "parse_digits n [] = Inr n"
| "parse_digits n (c # cs) =
     (case digit_val c of
        None \<Rightarrow> Inl ErrSyntax
      | Some d \<Rightarrow>
          if n \<ge> (2 ^ 64 - 1) div 10 + 1 then Inl ErrRange
          else if n * 10 + d > 2 ^ 64 - 1 then Inl ErrRange
          else parse_digits (n * 10 + d) cs)"

definition ParseUint :: "string \<Rightarrow> num_cause + nat" where
  "ParseUint s = (if s = [] then Inl ErrSyntax else parse_digits 0 s)"

definition ParseInt :: "string \<Rightarrow> NumError + 64 word" where
  "ParseInt s =
     (if s = [] then Inl (NumError ''ParseInt'' s ErrSyntax)
      else
        let neg = (hd s = CHR ''-'');
            s1 = (if hd s = CHR ''+'' \<or> hd s = CHR ''-'' then tl s else s)
        in case ParseUint s1 of
             Inl cause \<Rightarrow> Inl (NumError ''ParseInt'' s cause)
           | Inr un \<Rightarrow>
               if \<not> neg \<and> un \<ge> 2 ^ 63 then Inl (NumError ''ParseInt'' s ErrRange)
               else if neg \<and> un > 2 ^ 63 then Inl (NumError ''ParseInt'' s ErrRange)
               else Inr (if neg then - word_of_nat un else word_of_nat un))"

text \<open>\<^verbatim>\<open>json.Number\<close> is a string type; \<^verbatim>\<open>Int64\<close> parses it and \<^verbatim>\<open>String\<close> returns it.\<close>

type_synonym Number = string

definition Number_Int64 :: "Number \<Rightarrow> NumError + 64 word" where
  "Number_Int64 n = ParseInt n"

definition Number_String :: "Number \<Rightarrow> string" where
  "Number_String n = n"

subsection \<open>Domains: \<^verbatim>\<open>domain.go\<close>\<close>

record Domain =
  Domain_Domain :: string
  Domain_Status :: string
  Domain_TLD :: string
  Domain_CreateDate :: string
  Domain_ExpireDate :: string
  Domain_SecurityLock :: bool
  Domain_WhoisPrivacy :: bool
  Domain_AutoRenew :: bool
  Domain_NotLocal :: bool

record domain =
  domain_Domain :: string
  domain_Status :: string
  domain_TLD :: string
  domain_CreateDate :: string
  domain_ExpireDate :: string
  domain_SecurityLock :: Number
  domain_WhoisPrivacy :: Number
  domain_AutoRenew :: Number
  domain_NotLocal :: Number

text \<open>
  \<^verbatim>\<open>(*domain).convert\<close>: four switches in a row, each returning early from its default
  branch. The second, third and fourth switch all read \<^verbatim>\<open>d.NotLocal\<close>, and the second and
  third print another field than the one they read.
\<close>

definition domain_convert :: "domain \<Rightarrow> go_error + Domain" where
  "domain_convert d =
     (let out = \<lparr>Domain_Domain = domain_Domain d, Domain_Status = domain_Status d,
                 Domain_TLD = domain_TLD d, Domain_CreateDate = domain_CreateDate d,
                 Domain_ExpireDate = domain_ExpireDate d, Domain_SecurityLock = False,
                 Domain_WhoisPrivacy = False, Domain_AutoRenew = False,
                 Domain_NotLocal = False\<rparr>
      in
      case (if Number_String (domain_SecurityLock d) = ''1''
              then Inr (out\<lparr>Domain_SecurityLock := True\<rparr>)
            else if Number_String (domain_SecurityLock d) = ''0''
              then Inr (out\<lparr>Domain_SecurityLock := False\<rparr>)
            else Inl (ExpectedSecurityLock (Number_String (domain_SecurityLock d)))) of
        Inl err \<Rightarrow> Inl err
      | Inr out \<Rightarrow>
      case (if Number_String (domain_NotLocal d) = ''1''
              then Inr (out\<lparr>Domain_WhoisPrivacy := True\<rparr>)
            else if Number_String (domain_NotLocal d) = ''0''
              then Inr (out\<lparr>Domain_WhoisPrivacy := False\<rparr>)
            else Inl (ExpectedWhoisPrivacy (Number_String (domain_WhoisPrivacy d)))) of
        Inl err \<Rightarrow> Inl err
      | Inr out \<Rightarrow>
      case (if Number_String (domain_NotLocal d) = ''1''
              then Inr (out\<lparr>Domain_AutoRenew := True\<rparr>)
            else if Number_String (domain_NotLocal d) = ''0''
              then Inr (out\<lparr>Domain_AutoRenew := False\<rparr>)
            else Inl (ExpectedAutoRenew (Number_String (domain_AutoRenew d)))) of
        Inl err \<Rightarrow> Inl err
      | Inr out \<Rightarrow>
      if Number_String (domain_NotLocal d) = ''1''
        then Inr (out\<lparr>Domain_NotLocal := True\<rparr>)
      else if Number_String (domain_NotLocal d) = ''0''
        then Inr (out\<lparr>Domain_NotLocal := False\<rparr>)
      else Inl (ExpectedNotLocal (Number_String (domain_NotLocal d))))"

subsection \<open>URL forwards and DNS records: \<^verbatim>\<open>url_forward.go\<close>\<close>

record URLForward =
  URLForward_ID :: "64 word option"
  URLForward_Subdomain :: string
  URLForward_Location :: string
  URLForward_Type :: string
  URLForward_IncludePath :: bool
  URLForward_Wildcard :: bool

record urlforward =
  urlforward_ID :: Number
  urlforward_Subdomain :: string
  urlforward_Location :: string
  urlforward_Type :: string
  urlforward_IncludePath :: string
  urlforward_Wildcard :: string

text \<open>\<^verbatim>\<open>(*URLForward).convert\<close>, from the domain form to the wire form.\<close>

definition URLForward_convert :: "URLForward \<Rightarrow> urlforward" where
  "URLForward_convert f =
     (let idstr = (case URLForward_ID f of None \<Rightarrow> '''' | Some i \<Rightarrow> FormatInt i);
          includePath = (if URLForward_IncludePath f then ''yes'' else ''no'');
          wildcard = (if URLForward_Wildcard f then ''yes'' else ''no'')
      in \<lparr>urlforward_ID = idstr, urlforward_Subdomain = URLForward_Subdomain f,
          urlforward_Location = URLForward_Location f, urlforward_Type = URLForward_Type f,
          urlforward_IncludePath = includePath, urlforward_Wildcard = wildcard\<rparr>)"

text \<open>
  \<^verbatim>\<open>(*urlforward).convert\<close>, from the wire form to the domain form: the id is parsed
  whatever it holds, then the two switches.
\<close>

definition urlforward_convert :: "urlforward \<Rightarrow> go_error + URLForward" where
  "urlforward_convert f =
     (case Number_Int64 (urlforward_ID f) of
        Inl err \<Rightarrow> Inl (FailedToParseId err)
      | Inr idnum \<Rightarrow>
      let out = \<lparr>URLForward_ID = Some idnum, URLForward_Subdomain = urlforward_Subdomain f,
                 URLForward_Location = urlforward_Location f,
                 URLForward_Type = urlforward_Type f, URLForward_IncludePath = False,
                 URLForward_Wildcard = False\<rparr>
      in
      case (if urlforward_IncludePath f = ''yes''
              then Inr (out\<lparr>URLForward_IncludePath := True\<rparr>)
            else if urlforward_IncludePath f = ''no''
              then Inr (out\<lparr>URLForward_IncludePath := False\<rparr>)
            else Inl (ExpectedIncludePath (urlforward_IncludePath f))) of
        Inl err \<Rightarrow> Inl err
      | Inr out \<Rightarrow>
      if urlforward_Wildcard f = ''yes'' then Inr (out\<lparr>URLForward_Wildcard := True\<rparr>)
      else if urlforward_Wildcard f = ''no'' then Inr (out\<lparr>URLForward_Wildcard := False\<rparr>)
      else Inl (ExpectedWildcard (urlforward_Wildcard f)))"

record DNSRecord =
  DNSRecord_ID :: "64 word option"
  DNSRecord_Subdomain :: string
  DNSRecord_Type :: string
  DNSRecord_Content :: string
  DNSRecord_TTL :: "64 word"
  DNSRecord_Priority :: "64 word option"
  DNSRecord_Notes :: string

record dnsrecord =
  dnsrecord_ID :: Number
  dnsrecord_Subdomain :: string
  dnsrecord_Type :: string
  dnsrecord_Content :: string
  dnsrecord_TTL :: Number
  dnsrecord_Priority :: Number
  dnsrecord_Notes :: string

text \<open>\<^verbatim>\<open>(*DNSRecord).convert\<close>, from the domain form to the wire form.\<close>

definition DNSRecord_convert :: "DNSRecord \<Rightarrow> dnsrecord" where
  "DNSRecord_convert r =
     (let idstr = (case DNSRecord_ID r of None \<Rightarrow> '''' | Some i \<Rightarrow> FormatInt i);
          priority = (case DNSRecord_Priority r of None \<Rightarrow> '''' | Some p \<Rightarrow> FormatInt p)
      in \<lparr>dnsrecord_ID = idstr, dnsrecord_Subdomain = DNSRecord_Subdomain r,
          dnsrecord_Type = DNSRecord_Type r, dnsrecord_Content = DNSRecord_Content r,
          dnsrecord_TTL = FormatInt (DNSRecord_TTL r), dnsrecord_Priority = priority,
          dnsrecord_Notes = DNSRecord_Notes r\<rparr>)"

text \<open>
  \<^verbatim>\<open>(*dnsrecord).convert\<close>, from the wire form to the domain form. The id is parsed when
  \<^verbatim>\<open>r.ID.String() == ""\<close>. In that branch a parse error returns, and a parsed value would be
  stored through \<^verbatim>\<open>record.ID\<close>, which is still nil there: a panic. Only the other branch
  reaches the ttl, with \<^verbatim>\<open>record.ID\<close> nil. The priority is parsed when it is not empty.
\<close>

definition dnsrecord_convert :: "dnsrecord \<Rightarrow> (go_error + DNSRecord) result" where
  "dnsrecord_convert r =
     (let rec = \<lparr>DNSRecord_ID = None, DNSRecord_Subdomain = dnsrecord_Subdomain r,
                 DNSRecord_Type = dnsrecord_Type r, DNSRecord_Content = dnsrecord_Content r,
                 DNSRecord_TTL = 0, DNSRecord_Priority = None,
                 DNSRecord_Notes = dnsrecord_Notes r\<rparr>
      in
      if Number_String (dnsrecord_ID r) = '''' then
        (case Number_Int64 (dnsrecord_ID r) of
           Inl err \<Rightarrow> Return (Inl (FailedToParseId err))
         | Inr idnum \<Rightarrow> Panic nil_dereference)
      else
        (case Number_Int64 (dnsrecord_TTL r) of
           Inl err \<Rightarrow> Return (Inl (FailedToParseTtl err))
         | Inr ttl \<Rightarrow>
             let rec = rec\<lparr>DNSRecord_TTL := ttl\<rparr> in
             if Number_String (dnsrecord_Priority r) \<noteq> '''' then
               (case Number_Int64 (dnsrecord_Priority r) of
                  Inl err \<Rightarrow> Return (Inl (FailedToParsePriority err))
                | Inr priority \<Rightarrow> Return (Inr (rec\<lparr>DNSRecord_Priority := Some priority\<rparr>)))
             else Return (Inr rec)))"

subsection \<open>Memory and the network\<close>

text \<open>
  \<^verbatim>\<open>post\<close> writes through its \<^verbatim>\<open>req\<close> argument, a pointer to a struct that embeds
  \<^verbatim>\<open>Credentials\<close>, and reads the \<^verbatim>\<open>Credentials\<close> embedded in the client. Both live in the
  \<open>heap\<close>, which maps the address of a \<^verbatim>\<open>Credentials\<close> struct to its value; \<open>brk\<close> is the
  next address \<^verbatim>\<open>new\<close> hands out. \<open>net\<close> is the state of everything behind
  \<^verbatim>\<open>http.Client.Do\<close>.
\<close>

type_synonym addr = nat

record 's world =
  heap :: "addr \<Rightarrow> Credentials"
  brk :: addr
  net :: 's

definition setAPIKey :: "addr \<Rightarrow> string \<Rightarrow> 's world \<Rightarrow> 's world" where
  "setAPIKey c apiKey \<sigma> = \<sigma>\<lparr>heap := (heap \<sigma>)(c := (heap \<sigma> c)\<lparr>APIKey := apiKey\<rparr>)\<rparr>"

definition setSecretAPIKey :: "addr \<Rightarrow> string \<Rightarrow> 's world \<Rightarrow> 's world" where
  "setSecretAPIKey c secretAPIKey \<sigma> =
     \<sigma>\<lparr>heap := (heap \<sigma>)(c := (heap \<sigma> c)\<lparr>SecretAPIKey := secretAPIKey\<rparr>)\<rparr>"

text \<open>\<^verbatim>\<open>&Credentials{}\<close>: a fresh struct with both fields empty.\<close>

definition new_Credentials :: "'s world \<Rightarrow> addr \<times> 's world" where
  "new_Credentials \<sigma> =
     (brk \<sigma>,
      \<sigma>\<lparr>heap := (heap \<sigma>)(brk \<sigma> := \<lparr>APIKey = [], SecretAPIKey = []\<rparr>),
        brk := Suc (brk \<sigma>)\<rparr>)"

record URL =
  Scheme :: string
  Host :: string
  Path :: string

record 'b Request =
  Method :: string
  RequestURL :: string
  Header :: "string \<rightharpoonup> string"
  Body :: "'b option"

text \<open>
  The collaborators from the standard library that \<^verbatim>\<open>do\<close> calls before the request
  leaves: \<^verbatim>\<open>(*url.URL).JoinPath\<close> followed by \<^verbatim>\<open>String\<close>, and
  \<^verbatim>\<open>http.NewRequestWithContext\<close>, which returns an error text or a request; and
  \<^verbatim>\<open>strconv.Quote\<close>, for the text of a \<^verbatim>\<open>NumError\<close>.
\<close>

record 'b stdlib =
  JoinPath :: "URL \<Rightarrow> string \<Rightarrow> string"
  NewRequestWithContext :: "string \<Rightarrow> string \<Rightarrow> 'b option \<Rightarrow> string + 'b Request"
  Quote :: "string \<Rightarrow> string"

text \<open>
  The client. \<open>Client_Credentials\<close> is the address of the embedded \<^verbatim>\<open>Credentials\<close>.
  \<open>Client_client\<close> stands for \<^verbatim>\<open>(*http.Client).Do\<close>: it answers a request, from the state
  of the network, with an error text or with a response, of which the client only reads the
  body; the response is given as what \<^verbatim>\<open>io.ReadAll\<close> makes of that body, an error text or
  the bytes \<open>'b\<close>.
\<close>

record ('s, 'b) Client =
  Client_Credentials :: addr
  Client_url :: URL
  Client_client :: "'b Request \<Rightarrow> 's \<Rightarrow> (string + (string + 'b)) \<times> 's"

text \<open>\<^verbatim>\<open>NewClient\<close> allocates the client, with the credentials it is given.\<close>

definition NewClient ::
  "('b Request \<Rightarrow> 's \<Rightarrow> (string + (string + 'b)) \<times> 's) \<Rightarrow> string \<Rightarrow> string \<Rightarrow> bool \<Rightarrow>
   's world \<Rightarrow> ('s, 'b) Client \<times> 's world" where
  "NewClient client apiKey secretAPIKey forceIPv4 \<sigma> =
     (let host = (if forceIPv4 then ''api-ipv4.porkbun.com'' else ''porkbun.com'');
          scheme = ''https'';
          path = ''api/json/v3''
      in
      (\<lparr>Client_Credentials = brk \<sigma>,
        Client_url = \<lparr>Scheme = scheme, Host = host, Path = path\<rparr>,
        Client_client = client\<rparr>,
       \<sigma>\<lparr>heap := (heap \<sigma>)(brk \<sigma> := \<lparr>APIKey = apiKey, SecretAPIKey = secretAPIKey\<rparr>),
         brk := Suc (brk \<sigma>)\<rparr>))"

text \<open>
  \<^verbatim>\<open>(*Client).do\<close>. The deferred \<^verbatim>\<open>res.Body.Close()\<close> has no part in what the function
  returns and is left out. \<open>Unmarshal\<close> is \<^verbatim>\<open>json.Unmarshal\<close> at the type of the response: from the
  bytes and the response struct as it is, an error text or none, and the struct as
  \<^verbatim>\<open>json.Unmarshal\<close> leaves it. The function returns the error, the response struct and
  the world after the call.
\<close>

definition Client_do ::
  "'b stdlib \<Rightarrow> ('b \<Rightarrow> 'a Status_scheme \<Rightarrow> string option \<times> 'a Status_scheme) \<Rightarrow>
   ('s, 'b) Client \<Rightarrow> string \<Rightarrow> string \<Rightarrow> 'b option \<Rightarrow> 'a Status_scheme \<Rightarrow> 's world \<Rightarrow>
   go_error option \<times> 'a Status_scheme \<times> 's world" where
  "Client_do L Unmarshal c method path body response \<sigma> =
     (let url = JoinPath L (Client_url c) path in
      case NewRequestWithContext L method url body of
        Inl err \<Rightarrow> (Some (FailedToCreateRequest err), response, \<sigma>)
      | Inr req \<Rightarrow>
      let req = req\<lparr>Header := (Header req)(''Content-Type'' \<mapsto> ''application/json'')\<rparr>;
          req = req\<lparr>Header := (Header req)(''Accept'' \<mapsto> ''application/json'')\<rparr>
      in
      case Client_client c req (net \<sigma>) of
        (Inl err, n) \<Rightarrow> (Some (FailedToProcessRequest err), response, \<sigma>\<lparr>net := n\<rparr>)
      | (Inr res, n) \<Rightarrow>
      case res of
        Inl err \<Rightarrow> (Some (FailedToReadBody err), response, \<sigma>\<lparr>net := n\<rparr>)
      | Inr b \<Rightarrow>
      case Unmarshal b response of
        (Some err, response) \<Rightarrow> (Some (FailedToUnmarshal err), response, \<sigma>\<lparr>net := n\<rparr>)
      | (None, response) \<Rightarrow>
      if getStatus response = ''SUCCESS'' then (None, response, \<sigma>\<lparr>net := n\<rparr>)
      else if getStatus response = ''ERROR''
        then (Some (ErrorStatus (getMessage response)), response, \<sigma>\<lparr>net := n\<rparr>)
      else (Some (UnknownStatus (getStatus response)), response, \<sigma>\<lparr>net := n\<rparr>))"

definition Client_get ::
  "'b stdlib \<Rightarrow> ('b \<Rightarrow> 'a Status_scheme \<Rightarrow> string option \<times> 'a Status_scheme) \<Rightarrow>
   ('s, 'b) Client \<Rightarrow> string \<Rightarrow> 'a Status_scheme \<Rightarrow> 's world \<Rightarrow>
   go_error option \<times> 'a Status_scheme \<times> 's world" where
  "Client_get L Unmarshal c path res \<sigma> = Client_do L Unmarshal c ''GET'' path None res \<sigma>"

text \<open>
  \<^verbatim>\<open>(*Client).post\<close>. The request is the address of its embedded \<^verbatim>\<open>Credentials\<close> and the
  rest of its fields \<open>'p\<close>, which \<^verbatim>\<open>post\<close> only hands to \<^verbatim>\<open>json.Marshal\<close>; \<open>Marshal\<close> is
  \<^verbatim>\<open>json.Marshal\<close> at the type of the request, from the credentials it finds in the struct
  and the rest. Each setter reads the client's field from the heap when it is called.
\<close>

definition Client_post ::
  "'b stdlib \<Rightarrow> (Credentials \<Rightarrow> 'p \<Rightarrow> string + 'b) \<Rightarrow>
   ('b \<Rightarrow> 'a Status_scheme \<Rightarrow> string option \<times> 'a Status_scheme) \<Rightarrow>
   ('s, 'b) Client \<Rightarrow> string \<Rightarrow> addr \<times> 'p \<Rightarrow> 'a Status_scheme \<Rightarrow> 's world \<Rightarrow>
   go_error option \<times> 'a Status_scheme \<times> 's world" where
  "Client_post L Marshal Unmarshal c path req res \<sigma> =
     (let \<sigma> = setAPIKey (fst req) (APIKey (heap \<sigma> (Client_Credentials c))) \<sigma>;
          \<sigma> = setSecretAPIKey (fst req) (SecretAPIKey (heap \<sigma> (Client_Credentials c))) \<sigma>
      in
      case Marshal (heap \<sigma> (fst req)) (snd req) of
        Inl err \<Rightarrow> (Some (FailedToMarshal err), res, \<sigma>)
      | Inr body \<Rightarrow> Client_do L Unmarshal c ''POST'' path (Some body) res \<sigma>)"

subsection \<open>Listing calls\<close>

record DomainListResponse = Status +
  Domains :: "domain list"

record URLForwardsResponse = Status +
  Forwards :: "urlforward list"

record DNSRecordsResponse = Status +
  Records :: "dnsrecord list"

text \<open>
  The loop that ends \<^verbatim>\<open>DomainList\<close>, \<^verbatim>\<open>URLForwards\<close>, \<^verbatim>\<open>DNSRecords\<close> and
  \<^verbatim>\<open>DNSRecordsByTypeName\<close>: the same statements in each, around the converter of the
  element type. The converted pointer is appended whether or not the conversion failed, and
  it is nil, here \<open>None\<close>, when it failed.
\<close>

fun convert_each ::
  "('w \<Rightarrow> (go_error + 'd) result) \<Rightarrow> 'w list \<Rightarrow> 'd option list \<Rightarrow> go_error list \<Rightarrow>
   ('d option list \<times> go_error list) result" where
  "convert_each conv [] out errs = Return (out, errs)"
| "convert_each conv (w # ws) out errs =
     (case conv w of
        Panic m \<Rightarrow> Panic m
      | Return (Inl err) \<Rightarrow> convert_each conv ws (out @ [None]) (errs @ [err])
      | Return (Inr d) \<Rightarrow> convert_each conv ws (out @ [Some d]) errs)"

text \<open>
  \<^verbatim>\<open>(*Client).DomainList\<close>. The request struct embeds a fresh \<^verbatim>\<open>Credentials\<close> and carries
  \<^verbatim>\<open>Start\<close>. A nil slice and an empty one are both \<open>[]\<close>.
\<close>

definition Client_DomainList ::
  "'b stdlib \<Rightarrow> (Credentials \<Rightarrow> 64 word \<Rightarrow> string + 'b) \<Rightarrow>
   ('b \<Rightarrow> DomainListResponse \<Rightarrow> string option \<times> DomainListResponse) \<Rightarrow>
   ('s, 'b) Client \<Rightarrow> 64 word \<Rightarrow> 's world \<Rightarrow>
   (Domain option list \<times> go_error list) result \<times> 's world" where
  "Client_DomainList L Marshal Unmarshal c start \<sigma> =
     (let path = ''domain/listAll'';
          (req, \<sigma>) = new_Credentials \<sigma>;
          res = \<lparr>Status = [], Message = [], Domains = []\<rparr>
      in
      case Client_post L Marshal Unmarshal c path (req, start) res \<sigma> of
        (Some err, res, \<sigma>) \<Rightarrow> (Return ([], [err]), \<sigma>)
      | (None, res, \<sigma>) \<Rightarrow>
          (convert_each (\<lambda>d. Return (domain_convert d)) (Domains res) [] [], \<sigma>))"

text \<open>\<^verbatim>\<open>(*Client).URLForwards\<close>.\<close>

definition Client_URLForwards ::
  "'b stdlib \<Rightarrow> (Credentials \<Rightarrow> unit \<Rightarrow> string + 'b) \<Rightarrow>
   ('b \<Rightarrow> URLForwardsResponse \<Rightarrow> string option \<times> URLForwardsResponse) \<Rightarrow>
   ('s, 'b) Client \<Rightarrow> string \<Rightarrow> 's world \<Rightarrow>
   (URLForward option list \<times> go_error list) result \<times> 's world" where
  "Client_URLForwards L Marshal Unmarshal c domain \<sigma> =
     (let path = ''domain/getUrlForwarding/'' @ domain;
          (req, \<sigma>) = new_Credentials \<sigma>;
          res = \<lparr>Status = [], Message = [], Forwards = []\<rparr>
      in
      case Client_post L Marshal Unmarshal c path (req, ()) res \<sigma> of
        (Some err, res, \<sigma>) \<Rightarrow> (Return ([], [err]), \<sigma>)
      | (None, res, \<sigma>) \<Rightarrow>
          (convert_each (\<lambda>f. Return (urlforward_convert f)) (Forwards res) [] [], \<sigma>))"

text \<open>\<^verbatim>\<open>(*Client).DNSRecords\<close>, with the optional record id in the path.\<close>

definition Client_DNSRecords ::
  "'b stdlib \<Rightarrow> (Credentials \<Rightarrow> unit \<Rightarrow> string + 'b) \<Rightarrow>
   ('b \<Rightarrow> DNSRecordsResponse \<Rightarrow> string option \<times> DNSRecordsResponse) \<Rightarrow>
   ('s, 'b) Client \<Rightarrow> string \<Rightarrow> 64 word option \<Rightarrow> 's world \<Rightarrow>
   (DNSRecord option list \<times> go_error list) result \<times> 's world" where
  "Client_DNSRecords L Marshal Unmarshal c domain ident \<sigma> =
     (let path = ''dns/retrieve/'' @ domain;
          path = (case ident of None \<Rightarrow> path | Some i \<Rightarrow> path @ ''/'' @ FormatInt i);
          (req, \<sigma>) = new_Credentials \<sigma>;
          res = \<lparr>Status = [], Message = [], Records = []\<rparr>
      in
      case Client_post L Marshal Unmarshal c path (req, ()) res \<sigma> of
        (Some err, res, \<sigma>) \<Rightarrow> (Return ([], [err]), \<sigma>)
      | (None, res, \<sigma>) \<Rightarrow> (convert_each dnsrecord_convert (Records res) [] [], \<sigma>))"

text \<open>\<^verbatim>\<open>(*Client).DNSRecordsByTypeName\<close>, with the optional subdomain in the path.\<close>

definition Client_DNSRecordsByTypeName ::
  "'b stdlib \<Rightarrow> (Credentials \<Rightarrow> unit \<Rightarrow> string + 'b) \<Rightarrow>
   ('b \<Rightarrow> DNSRecordsResponse \<Rightarrow> string option \<times> DNSRecordsResponse) \<Rightarrow>
   ('s, 'b) Client \<Rightarrow> string \<Rightarrow> string \<Rightarrow> string \<Rightarrow> 's world \<Rightarrow>
   (DNSRecord option list \<times> go_error list) result \<times> 's world" where
  "Client_DNSRecordsByTypeName L Marshal Unmarshal c domain type subdomain \<sigma> =
     (let path = ''dns/retrieveByNameType/'' @ domain @ ''/'' @ type;
          path = (if subdomain \<noteq> [] then path @ ''/'' @ subdomain else path);
          (req, \<sigma>) = new_Credentials \<sigma>;
          res = \<lparr>Status = [], Message = [], Records = []\<rparr>
      in
      case Client_post L Marshal Unmarshal c path (req, ()) res \<sigma> of
        (Some err, res, \<sigma>) \<Rightarrow> (Return ([], [err]), \<sigma>)
      | (None, res, \<sigma>) \<Rightarrow> (convert_each dnsrecord_convert (Records res) [] [], \<sigma>))"

subsection \<open>The domain-list data source: \<^verbatim>\<open>(*DomainListDataSource).Read\<close>\<close>

record domainModel =
  domainModel_Domain :: string
  domainModel_Status :: string
  domainModel_TLD :: string
  domainModel_CreateDate :: string
  domainModel_ExpireDate :: string
  domainModel_SecurityLock :: bool
  domainModel_WhoisPrivacy :: bool
  domainModel_AutoRenew :: bool
  domainModel_NotLocal :: bool

record Diagnostic =
  Summary :: string
  Detail :: string

definition to_domainModel :: "Domain \<Rightarrow> domainModel" where
  "to_domainModel d =
     \<lparr>domainModel_Domain = Domain_Domain d, domainModel_Status = Domain_Status d,
      domainModel_TLD = Domain_TLD d, domainModel_CreateDate = Domain_CreateDate d,
      domainModel_ExpireDate = Domain_ExpireDate d,
      domainModel_SecurityLock = Domain_SecurityLock d,
      domainModel_WhoisPrivacy = Domain_WhoisPrivacy d,
      domainModel_AutoRenew = Domain_AutoRenew d, domainModel_NotLocal = Domain_NotLocal d\<rparr>"

text \<open>
  The inner loop of \<^verbatim>\<open>Read\<close> appends one model for each pointer of the page; reading a
  field through a nil pointer panics.
\<close>

fun append_models :: "domainModel list \<Rightarrow> Domain option list \<Rightarrow> domainModel list result" where
  "append_models models [] = Return models"
| "append_models models (None # domains) = Panic nil_dereference"
| "append_models models (Some d # domains) =
     append_models (models @ [to_domainModel d]) domains"

text \<open>
  \<^verbatim>\<open>resp.Diagnostics.AddError\<close>, of the plugin framework: it appends an error diagnostic
  unless an equal one is there already. Every diagnostic of \<^verbatim>\<open>Read\<close> is an error, so a
  diagnostic is its summary and its detail.
\<close>

definition AddError :: "string \<Rightarrow> string \<Rightarrow> Diagnostic list \<Rightarrow> Diagnostic list" where
  "AddError summary detail diags =
     (let d = \<lparr>Summary = summary, Detail = detail\<rparr> in
      if d \<in> set diags then diags else diags @ [d])"

text \<open>
  The outer loop of \<^verbatim>\<open>Read\<close>, \<^verbatim>\<open>for start := int64(0); ; start += 1000\<close>, has no bound of
  its own: it ends at an error or at a page of fewer than 1000 entries, so it is a partial
  function and \<open>None\<close> is the loop that never ends. \<open>list\<close> is the call
  \<^verbatim>\<open>d.client.DomainList(ctx, start)\<close> on the world \<open>'w\<close>. The result is the list of models
  and the diagnostics the loop adds with \<^verbatim>\<open>AddError\<close>, one for each error of the failed call
  that no earlier error of that call equals. The response has no error diagnostic when the
  loop starts: with one, \<^verbatim>\<open>Read\<close> returns before the loop.
\<close>

partial_function (option) Read_pages ::
  "(string \<Rightarrow> string) \<Rightarrow>
   (64 word \<Rightarrow> 'w \<Rightarrow> (Domain option list \<times> go_error list) result \<times> 'w) \<Rightarrow>
   64 word \<Rightarrow> domainModel list \<Rightarrow> 'w \<Rightarrow>
   ((domainModel list \<times> Diagnostic list) result \<times> 'w) option" where
  "Read_pages quote list start models \<sigma> =
     (case list start \<sigma> of
        (Panic m, \<sigma>) \<Rightarrow> Some (Panic m, \<sigma>)
      | (Return (domains, errs), \<sigma>) \<Rightarrow>
          if errs \<noteq> [] then
            Some (Return (models,
                    foldl (\<lambda>diags err. AddError ''Client Error'' (Error quote err) diags) [] errs),
                  \<sigma>)
          else
            (case append_models models domains of
               Panic m \<Rightarrow> Some (Panic m, \<sigma>)
             | Return models \<Rightarrow>
                 if length domains < 1000 then Some (Return (models, []), \<sigma>)
                 else Read_pages quote list (start + 1000) models \<sigma>))"

text \<open>
  \<^verbatim>\<open>Read\<close> itself: the loop from offset 0 with no models; what it returns here is what
  \<^verbatim>\<open>Read\<close> stores as \<^verbatim>\<open>model.Domains\<close> and the diagnostics of the response. Reading the
  configuration and writing the state belong to the plugin framework and are left out.
\<close>

definition Read ::
  "'b stdlib \<Rightarrow> (Credentials \<Rightarrow> 64 word \<Rightarrow> string + 'b) \<Rightarrow>
   ('b \<Rightarrow> DomainListResponse \<Rightarrow> string option \<times> DomainListResponse) \<Rightarrow>
   ('s, 'b) Client \<Rightarrow> 's world \<Rightarrow>
   ((domainModel list \<times> Diagnostic list) result \<times> 's world) option" where
  "Read L Marshal Unmarshal c \<sigma> =
     Read_pages (Quote L) (Client_DomainList L Marshal Unmarshal c) 0 [] \<sigma>"


subsection \<open>\<^verbatim>\<open>encoding/json\<close> on the structs of the client\<close>

text \<open>
  \<^verbatim>\<open>json.Marshal\<close> and \<^verbatim>\<open>json.Unmarshal\<close> belong to the Go standard library and work by
  reflection on the struct they are given. This part writes out, for the structs of
  \<^verbatim>\<open>URLForwards\<close>, \<^verbatim>\<open>AddURLForward\<close> and \<^verbatim>\<open>Pricing\<close>, what reflection finds in their
  declarations and what the library does with it. A body is a syntax error or the JSON value
  it denotes.
\<close>

datatype json =
    JNull
  | JBool bool
  | JNumber string
  | JString string
  | JArray "json list"
  | JObject "(string \<times> json) list"

datatype json_error = SyntaxError string | UnmarshalTypeError string | InvalidNumberLiteral string

type_synonym bytes = "string + json"

text \<open>
  A field as \<^verbatim>\<open>typeFields\<close> sees it: its Go name, its JSON name (the name in the tag, or
  the Go name when the tag gives none), whether the tag names it, how deep it is embedded,
  and the \<^verbatim>\<open>omitempty\<close> option.
\<close>

record field =
  field_name :: string
  field_key :: string
  field_tagged :: bool
  field_depth :: nat
  field_omitEmpty :: bool

definition isExported :: "string \<Rightarrow> bool" where
  "isExported name =
     (case name of [] \<Rightarrow> False | c # cs \<Rightarrow> 65 \<le> (of_char c :: nat) \<and> (of_char c :: nat) \<le> 90)"

text \<open>
  Among the fields of one JSON name the least embedded wins, and at equal depth a tagged
  one over an untagged one; \<^verbatim>\<open>dominantField\<close> drops them all when the first two tie.
  Unexported fields are never considered.
\<close>

definition dominates :: "field \<Rightarrow> field \<Rightarrow> bool" where
  "dominates f g =
     (field_depth f < field_depth g
      \<or> (field_depth f = field_depth g \<and> field_tagged f \<and> \<not> field_tagged g))"

definition typeFields :: "field list \<Rightarrow> field list" where
  "typeFields fs =
     (let exported = enumerate 0 (filter (\<lambda>f. isExported (field_name f)) fs) in
      map snd
        (filter
           (\<lambda>(i, f). list_all (\<lambda>(j, g). j = i \<or> field_key g \<noteq> field_key f \<or> dominates f g)
                       exported)
           exported))"

text \<open>
  The field for a key of a JSON object: an exact match first, then a match up to
  \<^verbatim>\<open>foldName\<close>, the case folding of the library, which is a parameter.
\<close>

definition find_field :: "(string \<Rightarrow> string) \<Rightarrow> field list \<Rightarrow> string \<Rightarrow> field option" where
  "find_field foldName fs key =
     (case find (\<lambda>f. field_key f = key) fs of
        Some f \<Rightarrow> Some f
      | None \<Rightarrow> find (\<lambda>f. foldName (field_key f) = foldName key) fs)"

text \<open>
  What \<^verbatim>\<open>foldName\<close> does to a name of ASCII characters: the lower-case letters become
  upper-case.
\<close>

definition foldName_ASCII :: "string \<Rightarrow> string" where
  "foldName_ASCII s =
     map (\<lambda>c. char_of (if 97 \<le> (of_char c :: nat) \<and> (of_char c :: nat) \<le> 122
                        then (of_char c :: nat) - 32 else of_char c)) s"

text \<open>
  Decoding goes on after a value of the wrong kind, keeping the first such error for the
  end, and stops at once at a string that is no number where a \<^verbatim>\<open>json.Number\<close> is due.
  Either way the struct keeps what was stored so far.
\<close>

datatype 'a decoding = Decoding 'a "json_error option" | Aborted 'a json_error

fun decoded :: "'a decoding \<Rightarrow> 'a" where
  "decoded (Decoding v saved) = v"
| "decoded (Aborted v err) = v"

definition kind :: "json \<Rightarrow> string" where
  "kind j =
     (case j of
        JNull \<Rightarrow> ''null'' | JBool b \<Rightarrow> ''bool'' | JNumber n \<Rightarrow> ''number''
      | JString s \<Rightarrow> ''string'' | JArray js \<Rightarrow> ''array'' | JObject kvs \<Rightarrow> ''object'')"

definition is_digit :: "char \<Rightarrow> bool" where
  "is_digit c = (48 \<le> (of_char c :: nat) \<and> (of_char c :: nat) \<le> 57)"

text \<open>\<^verbatim>\<open>isValidNumber\<close>, statement by statement; \<open>after_digits\<close> is its part after the integer.\<close>

definition after_digits :: "string \<Rightarrow> bool" where
  "after_digits s0 =
     (let s = (if 2 \<le> length s0 \<and> hd s0 = CHR ''.'' \<and> is_digit (s0 ! 1)
               then dropWhile is_digit (drop 2 s0) else s0)
      in
      if 2 \<le> length s \<and> (hd s = CHR ''e'' \<or> hd s = CHR ''E'') then
        (let s = tl s in
         if hd s = CHR ''+'' \<or> hd s = CHR ''-'' then
           (if tl s = [] then False else dropWhile is_digit (tl s) = [])
         else dropWhile is_digit s = [])
      else s = [])"

definition isValidNumber :: "string \<Rightarrow> bool" where
  "isValidNumber s0 =
     (if s0 = [] then False
      else
        let s = (if hd s0 = CHR ''-'' then tl s0 else s0) in
        if s = [] then False
        else if hd s = CHR ''0'' then after_digits (tl s)
        else if 49 \<le> (of_char (hd s) :: nat) \<and> (of_char (hd s) :: nat) \<le> 57
          then after_digits (dropWhile is_digit (tl s))
        else False)"

definition decode_string :: "json \<Rightarrow> string \<Rightarrow> string decoding" where
  "decode_string j v =
     (case j of
        JString s \<Rightarrow> Decoding s None
      | JNull \<Rightarrow> Decoding v None
      | _ \<Rightarrow> Decoding v (Some (UnmarshalTypeError (kind j))))"

definition decode_Number :: "json \<Rightarrow> Number \<Rightarrow> Number decoding" where
  "decode_Number j v =
     (case j of
        JNumber n \<Rightarrow> Decoding n None
      | JString s \<Rightarrow> if isValidNumber s then Decoding s None else Aborted v (InvalidNumberLiteral s)
      | JNull \<Rightarrow> Decoding v None
      | _ \<Rightarrow> Decoding v (Some (UnmarshalTypeError (kind j))))"

text \<open>
  A JSON object into a struct: each key in turn, stored through \<open>store\<close> when the struct has a
  field for it and skipped otherwise. \<open>store\<close> takes the Go name of the field.
\<close>

fun decode_fields ::
  "(string \<Rightarrow> string) \<Rightarrow> field list \<Rightarrow> (string \<Rightarrow> json \<Rightarrow> 'a \<Rightarrow> 'a decoding) \<Rightarrow>
   (string \<times> json) list \<Rightarrow> 'a \<Rightarrow> json_error option \<Rightarrow> 'a decoding" where
  "decode_fields foldName fs store [] v saved = Decoding v saved"
| "decode_fields foldName fs store (kv # kvs) v saved =
     (case find_field foldName fs (fst kv) of
        None \<Rightarrow> decode_fields foldName fs store kvs v saved
      | Some f \<Rightarrow>
          (case store (field_name f) (snd kv) v of
             Aborted v err \<Rightarrow> Aborted v err
           | Decoding v s \<Rightarrow>
               decode_fields foldName fs store kvs v (if saved = None then s else saved)))"

definition decode_struct ::
  "(string \<Rightarrow> string) \<Rightarrow> field list \<Rightarrow> (string \<Rightarrow> json \<Rightarrow> 'a \<Rightarrow> 'a decoding) \<Rightarrow>
   json \<Rightarrow> 'a \<Rightarrow> 'a decoding" where
  "decode_struct foldName fs store j v =
     (case j of
        JObject kvs \<Rightarrow> decode_fields foldName (typeFields fs) store kvs v None
      | JNull \<Rightarrow> Decoding v None
      | _ \<Rightarrow> Decoding v (Some (UnmarshalTypeError (kind j))))"

text \<open>
  A JSON array into a slice, each element decoded into a zero value, and a JSON object into
  a map, each value decoded into a zero value; \<^verbatim>\<open>null\<close> makes either nil.
\<close>

fun decode_elems ::
  "(json \<Rightarrow> 'a \<Rightarrow> 'a decoding) \<Rightarrow> 'a \<Rightarrow> json list \<Rightarrow> 'a list \<Rightarrow> json_error option \<Rightarrow>
   'a list decoding" where
  "decode_elems dec zero [] vs saved = Decoding vs saved"
| "decode_elems dec zero (j # js) vs saved =
     (case dec j zero of
        Aborted v err \<Rightarrow> Aborted (vs @ [v]) err
      | Decoding v s \<Rightarrow> decode_elems dec zero js (vs @ [v]) (if saved = None then s else saved))"

definition decode_slice ::
  "(json \<Rightarrow> 'a \<Rightarrow> 'a decoding) \<Rightarrow> 'a \<Rightarrow> json \<Rightarrow> 'a list \<Rightarrow> 'a list decoding" where
  "decode_slice dec zero j vs =
     (case j of
        JArray js \<Rightarrow> decode_elems dec zero js [] None
      | JNull \<Rightarrow> Decoding [] None
      | _ \<Rightarrow> Decoding vs (Some (UnmarshalTypeError (kind j))))"

fun decode_entries ::
  "(json \<Rightarrow> 'a \<Rightarrow> 'a decoding) \<Rightarrow> 'a \<Rightarrow> (string \<times> json) list \<Rightarrow> (string \<rightharpoonup> 'a) \<Rightarrow>
   json_error option \<Rightarrow> (string \<rightharpoonup> 'a) decoding" where
  "decode_entries dec zero [] m saved = Decoding m saved"
| "decode_entries dec zero (kv # kvs) m saved =
     (case dec (snd kv) zero of
        Aborted v err \<Rightarrow> Aborted m err
      | Decoding v s \<Rightarrow>
          decode_entries dec zero kvs (m(fst kv \<mapsto> v)) (if saved = None then s else saved))"

definition decode_map ::
  "(json \<Rightarrow> 'a \<Rightarrow> 'a decoding) \<Rightarrow> 'a \<Rightarrow> json \<Rightarrow> (string \<rightharpoonup> 'a) \<Rightarrow> (string \<rightharpoonup> 'a) decoding" where
  "decode_map dec zero j m =
     (case j of
        JObject kvs \<Rightarrow> decode_entries dec zero kvs m None
      | JNull \<Rightarrow> Decoding Map.empty None
      | _ \<Rightarrow> Decoding m (Some (UnmarshalTypeError (kind j))))"

text \<open>
  \<^verbatim>\<open>json.Unmarshal\<close> into a response struct, in the form \<^verbatim>\<open>do\<close> takes it: the text of the
  error, made by the parameter \<open>render\<close>, and the struct.
\<close>

definition json_Unmarshal ::
  "(json_error \<Rightarrow> string) \<Rightarrow> (json \<Rightarrow> 'a \<Rightarrow> 'a decoding) \<Rightarrow> bytes \<Rightarrow> 'a \<Rightarrow> string option \<times> 'a" where
  "json_Unmarshal render dec b v =
     (case b of
        Inl err \<Rightarrow> (Some (render (SyntaxError err)), v)
      | Inr j \<Rightarrow>
          (case dec j v of
             Aborted v err \<Rightarrow> (Some (render err), v)
           | Decoding v saved \<Rightarrow> (map_option render saved, v)))"

text \<open>
  A struct into a JSON object: the fields of \<^verbatim>\<open>typeFields\<close> in order, without those that are
  \<^verbatim>\<open>omitempty\<close> and empty. A \<^verbatim>\<open>json.Number\<close> is written as the number it holds, the empty one
  as 0, and refused when it is no number.
\<close>

definition encode_Number :: "Number \<Rightarrow> json_error + json" where
  "encode_Number n =
     (let numStr = (if n = [] then ''0'' else n) in
      if isValidNumber numStr then Inr (JNumber numStr) else Inl (InvalidNumberLiteral numStr))"

fun encode_fields ::
  "field list \<Rightarrow> (string \<Rightarrow> json_error + json) \<Rightarrow> (string \<Rightarrow> bool) \<Rightarrow>
   json_error + (string \<times> json) list" where
  "encode_fields [] get isEmptyValue = Inr []"
| "encode_fields (f # fs) get isEmptyValue =
     (if field_omitEmpty f \<and> isEmptyValue (field_name f) then encode_fields fs get isEmptyValue
      else
        case get (field_name f) of
          Inl err \<Rightarrow> Inl err
        | Inr j \<Rightarrow>
            (case encode_fields fs get isEmptyValue of
               Inl err \<Rightarrow> Inl err
             | Inr kvs \<Rightarrow> Inr ((field_key f, j) # kvs)))"

definition json_Marshal ::
  "(json_error \<Rightarrow> string) \<Rightarrow> field list \<Rightarrow> (string \<Rightarrow> json_error + json) \<Rightarrow> (string \<Rightarrow> bool) \<Rightarrow>
   string + bytes" where
  "json_Marshal render fs get isEmptyValue =
     (case encode_fields (typeFields fs) get isEmptyValue of
        Inl err \<Rightarrow> Inl (render err)
      | Inr kvs \<Rightarrow> Inr (Inr (JObject kvs)))"

text \<open>The declarations of \<^verbatim>\<open>Status\<close>, \<^verbatim>\<open>Credentials\<close> and \<^verbatim>\<open>urlforward\<close>, embedded at a depth.\<close>

definition Status_fields :: "nat \<Rightarrow> field list" where
  "Status_fields depth =
     [\<lparr>field_name = ''Status'', field_key = ''status'', field_tagged = True,
       field_depth = depth, field_omitEmpty = False\<rparr>,
      \<lparr>field_name = ''Message'', field_key = ''message'', field_tagged = True,
       field_depth = depth, field_omitEmpty = False\<rparr>]"

definition Credentials_fields :: "nat \<Rightarrow> field list" where
  "Credentials_fields depth =
     [\<lparr>field_name = ''APIKey'', field_key = ''apikey'', field_tagged = True,
       field_depth = depth, field_omitEmpty = False\<rparr>,
      \<lparr>field_name = ''SecretAPIKey'', field_key = ''secretapikey'', field_tagged = True,
       field_depth = depth, field_omitEmpty = False\<rparr>]"

definition urlforward_fields :: "nat \<Rightarrow> field list" where
  "urlforward_fields depth =
     [\<lparr>field_name = ''ID'', field_key = ''id'', field_tagged = True,
       field_depth = depth, field_omitEmpty = True\<rparr>,
      \<lparr>field_name = ''Subdomain'', field_key = ''subdomain'', field_tagged = True,
       field_depth = depth, field_omitEmpty = False\<rparr>,
      \<lparr>field_name = ''Location'', field_key = ''location'', field_tagged = True,
       field_depth = depth, field_omitEmpty = False\<rparr>,
      \<lparr>field_name = ''Type'', field_key = ''type'', field_tagged = True,
       field_depth = depth, field_omitEmpty = False\<rparr>,
      \<lparr>field_name = ''IncludePath'', field_key = ''type'', field_tagged = True,
       field_depth = depth, field_omitEmpty = False\<rparr>,
      \<lparr>field_name = ''Wildcard'', field_key = ''wildcard'', field_tagged = True,
       field_depth = depth, field_omitEmpty = False\<rparr>]"

definition urlforward_set :: "string \<Rightarrow> json \<Rightarrow> urlforward \<Rightarrow> urlforward decoding" where
  "urlforward_set name j w =
     (if name = ''ID''
        then map_decoding (\<lambda>x. w\<lparr>urlforward_ID := x\<rparr>) (decode_Number j (urlforward_ID w))
      else if name = ''Subdomain''
        then map_decoding (\<lambda>x. w\<lparr>urlforward_Subdomain := x\<rparr>)
               (decode_string j (urlforward_Subdomain w))
      else if name = ''Location''
        then map_decoding (\<lambda>x. w\<lparr>urlforward_Location := x\<rparr>)
               (decode_string j (urlforward_Location w))
      else if name = ''Type''
        then map_decoding (\<lambda>x. w\<lparr>urlforward_Type := x\<rparr>) (decode_string j (urlforward_Type w))
      else if name = ''IncludePath''
        then map_decoding (\<lambda>x. w\<lparr>urlforward_IncludePath := x\<rparr>)
               (decode_string j (urlforward_IncludePath w))
      else if name = ''Wildcard''
        then map_decoding (\<lambda>x. w\<lparr>urlforward_Wildcard := x\<rparr>)
               (decode_string j (urlforward_Wildcard w))
      else Decoding w None)"

definition urlforward_zero :: urlforward where
  "urlforward_zero =
     \<lparr>urlforward_ID = [], urlforward_Subdomain = [], urlforward_Location = [],
      urlforward_Type = [], urlforward_IncludePath = [], urlforward_Wildcard = []\<rparr>"

text \<open>
  The response struct of \<^verbatim>\<open>URLForwards\<close>: \<^verbatim>\<open>Status\<close> embedded and
  \<^verbatim>\<open>Forwards []urlforward `json:"forwards"`\<close>.
\<close>

definition URLForwardsResponse_fields :: "field list" where
  "URLForwardsResponse_fields =
     Status_fields 1 @
     [\<lparr>field_name = ''Forwards'', field_key = ''forwards'', field_tagged = True,
       field_depth = 0, field_omitEmpty = False\<rparr>]"

definition URLForwardsResponse_set ::
  "(string \<Rightarrow> string) \<Rightarrow> string \<Rightarrow> json \<Rightarrow> URLForwardsResponse \<Rightarrow> URLForwardsResponse decoding" where
  "URLForwardsResponse_set foldName name j r =
     (if name = ''Status''
        then map_decoding (\<lambda>x. r\<lparr>Status := x\<rparr>) (decode_string j (Status r))
      else if name = ''Message''
        then map_decoding (\<lambda>x. r\<lparr>Message := x\<rparr>) (decode_string j (Message r))
      else if name = ''Forwards''
        then map_decoding (\<lambda>x. r\<lparr>Forwards := x\<rparr>)
               (decode_slice (decode_struct foldName (urlforward_fields 0) urlforward_set)
                  urlforward_zero j (Forwards r))
      else Decoding r None)"

definition Unmarshal_URLForwardsResponse ::
  "(json_error \<Rightarrow> string) \<Rightarrow> (string \<Rightarrow> string) \<Rightarrow> bytes \<Rightarrow> URLForwardsResponse \<Rightarrow>
   string option \<times> URLForwardsResponse" where
  "Unmarshal_URLForwardsResponse render foldName =
     json_Unmarshal render
       (decode_struct foldName URLForwardsResponse_fields (URLForwardsResponse_set foldName))"

text \<open>The request \<^verbatim>\<open>&Credentials{}\<close> of \<^verbatim>\<open>URLForwards\<close>, and \<^verbatim>\<open>json.Marshal\<close> on it.\<close>

definition Credentials_get :: "Credentials \<Rightarrow> string \<Rightarrow> json_error + json" where
  "Credentials_get creds name =
     (if name = ''APIKey'' then Inr (JString (APIKey creds))
      else if name = ''SecretAPIKey'' then Inr (JString (SecretAPIKey creds))
      else Inr JNull)"

definition Marshal_Credentials ::
  "(json_error \<Rightarrow> string) \<Rightarrow> Credentials \<Rightarrow> unit \<Rightarrow> string + bytes" where
  "Marshal_Credentials render creds u =
     json_Marshal render (Credentials_fields 0) (Credentials_get creds) (\<lambda>name. False)"

text \<open>
  The request struct of \<^verbatim>\<open>AddURLForward\<close>, \<^verbatim>\<open>struct{Credentials; urlforward}\<close>, and
  \<^verbatim>\<open>json.Marshal\<close> on it.
\<close>

definition AddURLForward_get :: "Credentials \<Rightarrow> urlforward \<Rightarrow> string \<Rightarrow> json_error + json" where
  "AddURLForward_get creds w name =
     (if name = ''APIKey'' then Inr (JString (APIKey creds))
      else if name = ''SecretAPIKey'' then Inr (JString (SecretAPIKey creds))
      else if name = ''ID'' then encode_Number (urlforward_ID w)
      else if name = ''Subdomain'' then Inr (JString (urlforward_Subdomain w))
      else if name = ''Location'' then Inr (JString (urlforward_Location w))
      else if name = ''Type'' then Inr (JString (urlforward_Type w))
      else if name = ''IncludePath'' then Inr (JString (urlforward_IncludePath w))
      else if name = ''Wildcard'' then Inr (JString (urlforward_Wildcard w))
      else Inr JNull)"

definition AddURLForward_isEmptyValue :: "Credentials \<Rightarrow> urlforward \<Rightarrow> string \<Rightarrow> bool" where
  "AddURLForward_isEmptyValue creds w name =
     (if name = ''APIKey'' then APIKey creds = []
      else if name = ''SecretAPIKey'' then SecretAPIKey creds = []
      else if name = ''ID'' then urlforward_ID w = []
      else if name = ''Subdomain'' then urlforward_Subdomain w = []
      else if name = ''Location'' then urlforward_Location w = []
      else if name = ''Type'' then urlforward_Type w = []
      else if name = ''IncludePath'' then urlforward_IncludePath w = []
      else if name = ''Wildcard'' then urlforward_Wildcard w = []
      else False)"

definition Marshal_AddURLForward ::
  "(json_error \<Rightarrow> string) \<Rightarrow> Credentials \<Rightarrow> urlforward \<Rightarrow> string + bytes" where
  "Marshal_AddURLForward render creds w =
     json_Marshal render (Credentials_fields 1 @ urlforward_fields 1) (AddURLForward_get creds w)
       (AddURLForward_isEmptyValue creds w)"

text \<open>\<^verbatim>\<open>(*Client).AddURLForward\<close>.\<close>

definition Client_AddURLForward ::
  "'b stdlib \<Rightarrow> (Credentials \<Rightarrow> urlforward \<Rightarrow> string + 'b) \<Rightarrow>
   ('b \<Rightarrow> Status \<Rightarrow> string option \<times> Status) \<Rightarrow>
   ('s, 'b) Client \<Rightarrow> string \<Rightarrow> URLForward \<Rightarrow> 's world \<Rightarrow> go_error option \<times> 's world" where
  "Client_AddURLForward L Marshal Unmarshal c domain forward \<sigma> =
     (let path = ''domain/addUrlForward/'' @ domain;
          (req, \<sigma>) = new_Credentials \<sigma>;
          res = \<lparr>Status = [], Message = []\<rparr>
      in
      case Client_post L Marshal Unmarshal c path (req, URLForward_convert forward) res \<sigma> of
        (err, res, \<sigma>) \<Rightarrow> (err, \<sigma>))"

subsection \<open>Pricing\<close>

record Pricing =
  Pricing_Registration :: string
  Pricing_Renewal :: string
  Pricing_Transfer :: string
  Pricing_SpecialType :: string

text \<open>
  The response struct of \<^verbatim>\<open>Pricing\<close>: \<^verbatim>\<open>Status\<close> embedded and
  \<^verbatim>\<open>pricing map[string]Pricing `json:"pricing"`\<close>, a field with a lower-case name.
\<close>

record PricingResponse = Status +
  pricing :: "string \<rightharpoonup> Pricing"

definition Pricing_fields :: "field list" where
  "Pricing_fields =
     [\<lparr>field_name = ''Registration'', field_key = ''registration'', field_tagged = True,
       field_depth = 0, field_omitEmpty = False\<rparr>,
      \<lparr>field_name = ''Renewal'', field_key = ''renewal'', field_tagged = True,
       field_depth = 0, field_omitEmpty = False\<rparr>,
      \<lparr>field_name = ''Transfer'', field_key = ''transfer'', field_tagged = True,
       field_depth = 0, field_omitEmpty = False\<rparr>,
      \<lparr>field_name = ''SpecialType'', field_key = ''specialType'', field_tagged = True,
       field_depth = 0, field_omitEmpty = False\<rparr>]"

definition Pricing_set :: "string \<Rightarrow> json \<Rightarrow> Pricing \<Rightarrow> Pricing decoding" where
  "Pricing_set name j p =
     (if name = ''Registration''
        then map_decoding (\<lambda>x. p\<lparr>Pricing_Registration := x\<rparr>)
               (decode_string j (Pricing_Registration p))
      else if name = ''Renewal''
        then map_decoding (\<lambda>x. p\<lparr>Pricing_Renewal := x\<rparr>) (decode_string j (Pricing_Renewal p))
      else if name = ''Transfer''
        then map_decoding (\<lambda>x. p\<lparr>Pricing_Transfer := x\<rparr>) (decode_string j (Pricing_Transfer p))
      else if name = ''SpecialType''
        then map_decoding (\<lambda>x. p\<lparr>Pricing_SpecialType := x\<rparr>)
               (decode_string j (Pricing_SpecialType p))
      else Decoding p None)"

definition Pricing_zero :: Pricing where
  "Pricing_zero =
     \<lparr>Pricing_Registration = [], Pricing_Renewal = [], Pricing_Transfer = [],
      Pricing_SpecialType = []\<rparr>"

definition PricingResponse_fields :: "field list" where
  "PricingResponse_fields =
     Status_fields 1 @
     [\<lparr>field_name = ''pricing'', field_key = ''pricing'', field_tagged = True,
       field_depth = 0, field_omitEmpty = False\<rparr>]"

definition PricingResponse_set ::
  "(string \<Rightarrow> string) \<Rightarrow> string \<Rightarrow> json \<Rightarrow> PricingResponse \<Rightarrow> PricingResponse decoding" where
  "PricingResponse_set foldName name j r =
     (if name = ''Status''
        then map_decoding (\<lambda>x. r\<lparr>Status := x\<rparr>) (decode_string j (Status r))
      else if name = ''Message''
        then map_decoding (\<lambda>x. r\<lparr>Message := x\<rparr>) (decode_string j (Message r))
      else if name = ''pricing''
        then map_decoding (\<lambda>x. r\<lparr>pricing := x\<rparr>)
               (decode_map (decode_struct foldName Pricing_fields Pricing_set) Pricing_zero j
                  (pricing r))
      else Decoding r None)"

definition Unmarshal_PricingResponse ::
  "(json_error \<Rightarrow> string) \<Rightarrow> (string \<Rightarrow> string) \<Rightarrow> bytes \<Rightarrow> PricingResponse \<Rightarrow>
   string option \<times> PricingResponse" where
  "Unmarshal_PricingResponse render foldName =
     json_Unmarshal render
       (decode_struct foldName PricingResponse_fields (PricingResponse_set foldName))"

text \<open>\<^verbatim>\<open>(*Client).Pricing\<close>; the nil map is the empty map.\<close>

definition Client_Pricing ::
  "'b stdlib \<Rightarrow> ('b \<Rightarrow> PricingResponse \<Rightarrow> string option \<times> PricingResponse) \<Rightarrow>
   ('s, 'b) Client \<Rightarrow> 's world \<Rightarrow> ((string \<rightharpoonup> Pricing) \<times> go_error option) \<times> 's world" where
  "Client_Pricing L Unmarshal c \<sigma> =
     (let path = ''pricing/get'';
          res = \<lparr>Status = [], Message = [], pricing = Map.empty\<rparr>
      in
      case Client_get L Unmarshal c path res \<sigma> of
        (err, res, \<sigma>) \<Rightarrow> ((pricing res, err), \<sigma>))"

subsection \<open>A scripted transport\<close>

text \<open>
  A network for running the client on concrete input: it answers each request with the next
  body of a script and records the request, and fails once the script is used up. The
  library functions of \<open>plain_stdlib\<close> join with a slash, never refuse a request and quote
  nothing.
\<close>

definition plain_stdlib :: "'b stdlib" where
  "plain_stdlib =
     \<lparr>JoinPath = (\<lambda>u path. Scheme u @ ''://'' @ Host u @ ''/'' @ Path u @ ''/'' @ path),
      NewRequestWithContext =
        (\<lambda>method url body.
           Inr \<lparr>Method = method, RequestURL = url, Header = Map.empty, Body = body\<rparr>),
      Quote = (\<lambda>s. s)\<rparr>"

definition scripted ::
  "'b Request \<Rightarrow> 'b list \<times> 'b Request list \<Rightarrow>
   (string + (string + 'b)) \<times> ('b list \<times> 'b Request list)" where
  "scripted req n =
     (case fst n of
        [] \<Rightarrow> (Inl ''EOF'', ([], snd n @ [req]))
      | b # bs \<Rightarrow> (Inr (Inr b), (bs, snd n @ [req])))"

definition scripted_Client :: "('b list \<times> 'b Request list, 'b) Client" where
  "scripted_Client =
     \<lparr>Client_Credentials = 0,
      Client_url = \<lparr>Scheme = ''https'', Host = ''porkbun.com'', Path = ''api/json/v3''\<rparr>,
      Client_client = scripted\<rparr>"

text \<open>
  The world in which \<open>scripted_Client\<close> holds the given credentials at address 0 and the
  network holds the script: what \<^verbatim>\<open>NewClient\<close> makes of the empty heap.
\<close>

definition scripted_world ::
  "Credentials \<Rightarrow> 'b list \<Rightarrow> ('b list \<times> 'b Request list) world" where
  "scripted_world creds script =
     \<lparr>heap = (\<lambda>a. \<lparr>APIKey = [], SecretAPIKey = []\<rparr>)(0 := creds), brk = 1,
      net = (script, [])\<rparr>"

text \<open>
  Bodies for the script that need no encoding: a body is the request struct or the response
  struct itself.
\<close>

datatype ('q, 'r) body = RequestBody Credentials 'q | ResponseBody 'r

definition Marshal_body :: "Credentials \<Rightarrow> 'q \<Rightarrow> string + ('q, 'r) body" where
  "Marshal_body creds q = Inr (RequestBody creds q)"

definition Unmarshal_body :: "('q, 'r) body \<Rightarrow> 'r \<Rightarrow> string option \<times> 'r" where
  "Unmarshal_body b res =
     (case b of
        RequestBody creds q \<Rightarrow> (Some ''unexpected request'', res)
      | ResponseBody r \<Rightarrow> (None, r))"

text \<open>The request \<^verbatim>\<open>DomainList\<close> hands to this network, and the body of a page.\<close>

definition example_domain :: domain where
  "example_domain =
     \<lparr>domain_Domain = ''example.com'', domain_Status = ''ACTIVE'', domain_TLD = ''com'',
      domain_CreateDate = ''2020-01-01 00:00:00'', domain_ExpireDate = ''2030-01-01 00:00:00'',
      domain_SecurityLock = ''1'', domain_WhoisPrivacy = ''1'', domain_AutoRenew = ''0'',
      domain_NotLocal = ''0''\<rparr>"

definition example_Domain :: Domain where
  "example_Domain =
     \<lparr>Domain_Domain = ''example.com'', Domain_Status = ''ACTIVE'', Domain_TLD = ''com'',
      Domain_CreateDate = ''2020-01-01 00:00:00'', Domain_ExpireDate = ''2030-01-01 00:00:00'',
      Domain_SecurityLock = True, Domain_WhoisPrivacy = False, Domain_AutoRenew = False,
      Domain_NotLocal = False\<rparr>"

definition listAll_request :: "Credentials \<Rightarrow> 64 word \<Rightarrow> ((64 word, 'r) body) Request" where
  "listAll_request creds start =
     \<lparr>Method = ''POST'', RequestURL = ''https://porkbun.com/api/json/v3/domain/listAll'',
      Header = [''Content-Type'' \<mapsto> ''application/json'', ''Accept'' \<mapsto> ''application/json''],
      Body = Some (RequestBody creds start)\<rparr>"

definition page_body :: "domain list \<Rightarrow> (64 word, DomainListResponse) body" where
  "page_body ds = ResponseBody \<lparr>Status = ''SUCCESS'', Message = [], Domains = ds\<rparr>"


text \<open>A text for each error of the decoder, for running it on concrete input.\<close>

fun plain_text :: "json_error \<Rightarrow> string" where
  "plain_text (SyntaxError msg) = msg"
| "plain_text (UnmarshalTypeError k) = ''json: cannot unmarshal '' @ k"
| "plain_text (InvalidNumberLiteral s) = ''json: invalid number literal '' @ s"

subsection \<open>Notions used to state the properties\<close>

text \<open>
  The errors \<^verbatim>\<open>do\<close> returns before it has a decoded envelope to look at.
\<close>

fun io_failure :: "go_error option \<Rightarrow> bool" where
  "io_failure (Some (FailedToCreateRequest err)) = True"
| "io_failure (Some (FailedToProcessRequest err)) = True"
| "io_failure (Some (FailedToReadBody err)) = True"
| "io_failure (Some (FailedToUnmarshal err)) = True"
| "io_failure err = False"


text \<open>
  \<open>serves_pages L Marshal Unmarshal c start \<sigma> pages \<sigma>'\<close>: from the world \<open>\<sigma>\<close>, the
  requests that \<^verbatim>\<open>DomainList\<close> posts at the offsets \<open>start\<close>, \<open>start + 1000\<close>, ... are
  answered, one after the other, without error and with the status "SUCCESS", by the given
  pages of wire records, and the last of them leaves the world \<open>\<sigma>'\<close>.
\<close>

fun serves_pages ::
  "'b stdlib \<Rightarrow> (Credentials \<Rightarrow> 64 word \<Rightarrow> string + 'b) \<Rightarrow>
   ('b \<Rightarrow> DomainListResponse \<Rightarrow> string option \<times> DomainListResponse) \<Rightarrow>
   ('s, 'b) Client \<Rightarrow> 64 word \<Rightarrow> 's world \<Rightarrow> domain list list \<Rightarrow> 's world \<Rightarrow> bool" where
  "serves_pages L Marshal Unmarshal c start \<sigma> [] \<sigma>' = (\<sigma>' = \<sigma>)"
| "serves_pages L Marshal Unmarshal c start \<sigma> (page # pages) \<sigma>' =
     (let r = Client_post L Marshal Unmarshal c ''domain/listAll''
                (fst (new_Credentials \<sigma>), start)
                \<lparr>Status = [], Message = [], Domains = []\<rparr> (snd (new_Credentials \<sigma>))
      in fst r = None \<and> Domains (fst (snd r)) = page
         \<and> serves_pages L Marshal Unmarshal c (start + 1000) (snd (snd r)) pages \<sigma>')"

text \<open>
  \<open>serves list start \<sigma> pages \<sigma>'\<close>: called at \<open>start\<close>, \<open>start + 1000\<close>, ... from the world
  \<open>\<sigma>\<close>, \<open>list\<close> returns the given pages in turn, each converted without error, and leaves
  the world \<open>\<sigma>'\<close>. \<open>logged list\<close> is \<open>list\<close> on a world that also records the offsets it
  is called with.
\<close>

fun serves ::
  "(64 word \<Rightarrow> 'w \<Rightarrow> (Domain option list \<times> go_error list) result \<times> 'w) \<Rightarrow>
   64 word \<Rightarrow> 'w \<Rightarrow> Domain list list \<Rightarrow> 'w \<Rightarrow> bool" where
  "serves list start \<sigma> [] \<sigma>' = (\<sigma>' = \<sigma>)"
| "serves list start \<sigma> (page # pages) \<sigma>' =
     (fst (list start \<sigma>) = Return (map Some page, [])
      \<and> serves list (start + 1000) (snd (list start \<sigma>)) pages \<sigma>')"

definition logged ::
  "(64 word \<Rightarrow> 'w \<Rightarrow> 'r \<times> 'w) \<Rightarrow> 64 word \<Rightarrow> 'w \<times> 64 word list \<Rightarrow> 'r \<times> ('w \<times> 64 word list)" where
  "logged list start \<sigma> =
     (fst (list start (fst \<sigma>)), (snd (list start (fst \<sigma>)), snd \<sigma> @ [start]))"


section \<open>Properties\<close>

subsection \<open>Decimal integers\<close>

lemma lt10_cases:
  "(d::nat) < 10 \<Longrightarrow>
     d = 0 \<or> d = 1 \<or> d = 2 \<or> d = 3 \<or> d = 4 \<or> d = 5 \<or> d = 6 \<or> d = 7 \<or> d = 8 \<or> d = 9"
  by presburger

lemma digit_val_digit_char: "d < 10 \<Longrightarrow> digit_val (digit_char d) = Some d"
  by (drule lt10_cases) (auto simp: digit_val_def digit_char_def)

lemma digit_char_not_sign:
  "d < 10 \<Longrightarrow> digit_char d \<noteq> CHR ''-'' \<and> digit_char d \<noteq> CHR ''+''"
  by (drule lt10_cases) (auto simp: digit_char_def)

lemma parse_digits_append:
  "parse_digits n (xs @ ys) =
     (case parse_digits n xs of Inl e \<Rightarrow> Inl e | Inr m \<Rightarrow> parse_digits m ys)"
  by (induction xs arbitrary: n) (simp_all split: option.splits)

lemma formatBits_nonempty: "formatBits u \<noteq> []"
  by (subst formatBits.simps) simp

lemma hd_formatBits: "\<exists>d < 10. hd (formatBits u) = digit_char d"
proof (induction u rule: formatBits.induct)
  case (1 u)
  show ?case
  proof (cases "u < 10")
    case True
    then show ?thesis by (subst formatBits.simps) auto
  next
    case False
    then show ?thesis using "1.IH" formatBits_nonempty
      by (subst formatBits.simps) simp
  qed
qed

lemma formatBits_no_sign:
  "hd (formatBits u) \<noteq> CHR ''-'' \<and> hd (formatBits u) \<noteq> CHR ''+''"
proof -
  obtain d where "d < 10" and "hd (formatBits u) = digit_char d"
    using hd_formatBits [of u] by blast
  then show ?thesis
    using digit_char_not_sign [of d] by simp
qed

lemma parse_digits_formatBits:
  "u < 2 ^ 64 \<Longrightarrow> parse_digits 0 (formatBits u) = Inr u"
proof (induction u rule: formatBits.induct)
  case (1 u)
  show ?case
  proof (cases "u < 10")
    case True
    have "parse_digits 0 [digit_char u] = Inr u"
      using True by (simp add: digit_val_digit_char)
    then show ?thesis
      using True by (subst formatBits.simps) simp
  next
    case False
    have lt: "u div 10 < 2 ^ 64"
      using "1.prems" by (meson div_le_dividend le_less_trans)
    have ih: "parse_digits 0 (formatBits (u div 10)) = Inr (u div 10)"
      using "1.IH" False lt by simp
    have a: "\<not> u div 10 \<ge> (2 ^ 64 - 1) div 10 + 1"
      using "1.prems" by simp
    have b: "u div 10 * 10 + u mod 10 = u"
      by simp
    have c: "\<not> u > 2 ^ 64 - 1"
      using "1.prems" by simp
    have d: "digit_val (digit_char (u mod 10)) = Some (u mod 10)"
      by (simp add: digit_val_digit_char)
    have last_digit: "parse_digits (u div 10) [digit_char (u mod 10)] = Inr u"
      using a c d by (simp add: b)
    have fb: "formatBits u = formatBits (u div 10) @ [digit_char (u mod 10)]"
      using False by (subst formatBits.simps) simp
    show ?thesis
      by (simp only: fb parse_digits_append ih sum.case last_digit)
  qed
qed

lemma ParseUint_formatBits: "u < 2 ^ 64 \<Longrightarrow> ParseUint (formatBits u) = Inr u"
  by (simp add: ParseUint_def formatBits_nonempty parse_digits_formatBits)

lemma ParseInt_FormatInt: "ParseInt (FormatInt i) = Inr i"
proof (cases "sint i < 0")
  case True
  have bound: "nat (- sint i) \<le> 2 ^ 63"
    using sint_ge [of i] by simp
  then have lt: "nat (- sint i) < 2 ^ 64" by simp
  have "word_of_nat (nat (- sint i)) = (word_of_int (- sint i) :: 64 word)"
    using True by (simp add: word_of_int_nat)
  then have again: "- word_of_nat (nat (- sint i)) = i"
    by simp
  have f: "FormatInt i = CHR ''-'' # formatBits (nat (- sint i))"
    using True by (simp add: FormatInt_def)
  show ?thesis
    unfolding f ParseInt_def
    using bound again ParseUint_formatBits [OF lt]
    by simp
next
  case False
  have bound: "nat (sint i) < 2 ^ 63"
    using sint_lt [of i] False by simp
  then have lt: "nat (sint i) < 2 ^ 64" by simp
  have again: "word_of_nat (nat (sint i)) = i"
    using False by simp
  have f: "FormatInt i = formatBits (nat (sint i))"
    using False by (simp add: FormatInt_def)
  show ?thesis
    unfolding f ParseInt_def
    using bound again ParseUint_formatBits [OF lt] formatBits_nonempty [of "nat (sint i)"]
      formatBits_no_sign [of "nat (sint i)"]
    by simp
qed

lemma FormatInt_nonempty: "FormatInt i \<noteq> []"
  by (simp add: FormatInt_def formatBits_nonempty)

lemma ParseInt_empty: "ParseInt [] = Inl (NumError ''ParseInt'' [] ErrSyntax)"
  by (simp add: ParseInt_def)

subsection \<open>Converters\<close>

text \<open>
  Claim C5. Whenever the converter of \<^verbatim>\<open>domain\<close> succeeds, the security lock of the result
  comes from the wire field \<^verbatim>\<open>SecurityLock\<close>, and whois privacy, auto renew and not local
  all three come from the wire field \<^verbatim>\<open>NotLocal\<close>: the result is the same whatever the
  wire fields \<^verbatim>\<open>WhoisPrivacy\<close> and \<^verbatim>\<open>AutoRenew\<close> hold.
\<close>

theorem domain_convert_sources:
  assumes "domain_convert d = Inr D"
  shows "Domain_SecurityLock D = (domain_SecurityLock d = ''1'')
       \<and> Domain_WhoisPrivacy D = (domain_NotLocal d = ''1'')
       \<and> Domain_AutoRenew D = (domain_NotLocal d = ''1'')
       \<and> Domain_NotLocal D = (domain_NotLocal d = ''1'')
       \<and> domain_convert (d\<lparr>domain_WhoisPrivacy := w, domain_AutoRenew := a\<rparr>) = Inr D"
  using assms
  by (auto simp: domain_convert_def Number_String_def Let_def split: if_splits)

text \<open>
  Claim C5, at a concrete input: with \<^verbatim>\<open>NotLocal\<close> "1", a wire whois privacy and auto renew of
  "0" come out true, and so do "1" and "yes".
\<close>

theorem domain_convert_sources_witness:
  "domain_convert \<lparr>domain_Domain = ''example.com'', domain_Status = ''ACTIVE'',
       domain_TLD = ''com'', domain_CreateDate = ''2020-01-01'', domain_ExpireDate = ''2030-01-01'',
       domain_SecurityLock = ''0'', domain_WhoisPrivacy = ''0'', domain_AutoRenew = ''0'',
       domain_NotLocal = ''1''\<rparr>
     = Inr \<lparr>Domain_Domain = ''example.com'', Domain_Status = ''ACTIVE'',
       Domain_TLD = ''com'', Domain_CreateDate = ''2020-01-01'', Domain_ExpireDate = ''2030-01-01'',
       Domain_SecurityLock = False, Domain_WhoisPrivacy = True, Domain_AutoRenew = True,
       Domain_NotLocal = True\<rparr>
   \<and> domain_convert \<lparr>domain_Domain = ''example.com'', domain_Status = ''ACTIVE'',
       domain_TLD = ''com'', domain_CreateDate = ''2020-01-01'', domain_ExpireDate = ''2030-01-01'',
       domain_SecurityLock = ''0'', domain_WhoisPrivacy = ''1'', domain_AutoRenew = ''yes'',
       domain_NotLocal = ''1''\<rparr>
     = Inr \<lparr>Domain_Domain = ''example.com'', Domain_Status = ''ACTIVE'',
       Domain_TLD = ''com'', Domain_CreateDate = ''2020-01-01'', Domain_ExpireDate = ''2030-01-01'',
       Domain_SecurityLock = False, Domain_WhoisPrivacy = True, Domain_AutoRenew = True,
       Domain_NotLocal = True\<rparr>"
proof -
  let ?d = "\<lparr>domain_Domain = ''example.com'', domain_Status = ''ACTIVE'',
       domain_TLD = ''com'', domain_CreateDate = ''2020-01-01'', domain_ExpireDate = ''2030-01-01'',
       domain_SecurityLock = ''0'', domain_WhoisPrivacy = ''0'', domain_AutoRenew = ''0'',
       domain_NotLocal = ''1''\<rparr>"
  let ?D = "\<lparr>Domain_Domain = ''example.com'', Domain_Status = ''ACTIVE'',
       Domain_TLD = ''com'', Domain_CreateDate = ''2020-01-01'', Domain_ExpireDate = ''2030-01-01'',
       Domain_SecurityLock = False, Domain_WhoisPrivacy = True, Domain_AutoRenew = True,
       Domain_NotLocal = True\<rparr>"
  have h: "domain_convert ?d = Inr ?D"
    by (simp add: domain_convert_def Number_String_def)
  show ?thesis
    using h domain_convert_sources [OF h, where w = "''1''" and a = "''yes''"] by simp
qed

text \<open>
  Claim C4 (each boolean field accepts only its two literals, and any other literal is an
  error that names the field and the literal) against the converter of \<^verbatim>\<open>domain\<close>. With
  \<^verbatim>\<open>NotLocal\<close> "1", the literals "maybe" for whois privacy and "2" for auto renew are
  accepted, and both fields come out true. With \<^verbatim>\<open>NotLocal\<close> "2" and every other field "1",
  the error is the one of whois privacy and prints "1", the literal of a field that is in
  order.
\<close>

theorem domain_convert_accepts_other_literals:
  "domain_convert \<lparr>domain_Domain = ''example.com'', domain_Status = ''ACTIVE'',
       domain_TLD = ''com'', domain_CreateDate = ''2020-01-01'', domain_ExpireDate = ''2030-01-01'',
       domain_SecurityLock = ''1'', domain_WhoisPrivacy = ''maybe'', domain_AutoRenew = ''2'',
       domain_NotLocal = ''1''\<rparr>
     = Inr \<lparr>Domain_Domain = ''example.com'', Domain_Status = ''ACTIVE'',
       Domain_TLD = ''com'', Domain_CreateDate = ''2020-01-01'', Domain_ExpireDate = ''2030-01-01'',
       Domain_SecurityLock = True, Domain_WhoisPrivacy = True, Domain_AutoRenew = True,
       Domain_NotLocal = True\<rparr>
   \<and> domain_convert \<lparr>domain_Domain = ''example.com'', domain_Status = ''ACTIVE'',
       domain_TLD = ''com'', domain_CreateDate = ''2020-01-01'', domain_ExpireDate = ''2030-01-01'',
       domain_SecurityLock = ''1'', domain_WhoisPrivacy = ''1'', domain_AutoRenew = ''1'',
       domain_NotLocal = ''2''\<rparr>
     = Inl (ExpectedWhoisPrivacy ''1'')
   \<and> Error quote (ExpectedWhoisPrivacy ''1'')
     = ''Expected whois privacy of '1' or '0', got '1'.''"
  by (simp add: domain_convert_def Number_String_def expected_1_or_0_def apostrophe_def)

text \<open>
  Claim C2 (a \<^verbatim>\<open>DNSRecord\<close> converted to wire form and back is the record again, an absent id
  or priority staying absent) against the two converters. A record with id 5 comes back
  without its id, and a record without id does not come back at all: the conversion from
  the wire form fails on the empty id.
\<close>

theorem dnsrecord_round_trip_fails:
  "dnsrecord_convert (DNSRecord_convert
       \<lparr>DNSRecord_ID = Some 5, DNSRecord_Subdomain = ''www'', DNSRecord_Type = ''A'',
        DNSRecord_Content = ''1.2.3.4'', DNSRecord_TTL = 600, DNSRecord_Priority = Some 10,
        DNSRecord_Notes = ''''\<rparr>)
     = Return (Inr
       \<lparr>DNSRecord_ID = None, DNSRecord_Subdomain = ''www'', DNSRecord_Type = ''A'',
        DNSRecord_Content = ''1.2.3.4'', DNSRecord_TTL = 600, DNSRecord_Priority = Some 10,
        DNSRecord_Notes = ''''\<rparr>)
   \<and> dnsrecord_convert (DNSRecord_convert
       \<lparr>DNSRecord_ID = None, DNSRecord_Subdomain = ''www'', DNSRecord_Type = ''A'',
        DNSRecord_Content = ''1.2.3.4'', DNSRecord_TTL = 600, DNSRecord_Priority = None,
        DNSRecord_Notes = ''''\<rparr>)
     = Return (Inl (FailedToParseId (NumError ''ParseInt'' '''' ErrSyntax)))"
  by (simp add: dnsrecord_convert_def DNSRecord_convert_def Number_String_def Number_Int64_def
      ParseInt_FormatInt FormatInt_nonempty ParseInt_empty)

lemma dnsrecord_convert_no_panic: "dnsrecord_convert r \<noteq> Panic m"
  by (simp add: dnsrecord_convert_def Number_String_def Number_Int64_def ParseInt_empty Let_def
      split: sum.splits)

text \<open>
  Claim C3 says that an empty wire id of a URL forward converts to the absent id. The
  converter parses the id whatever it holds, and fails on the empty string.
\<close>

theorem urlforward_convert_empty_id_counterexample:
  "urlforward_convert
     \<lparr>urlforward_ID = '''', urlforward_Subdomain = ''www'',
      urlforward_Location = ''https://example.org'', urlforward_Type = ''temporary'',
      urlforward_IncludePath = ''no'', urlforward_Wildcard = ''yes''\<rparr>
   = Inl (FailedToParseId (NumError ''ParseInt'' '''' ErrSyntax))"
  by (simp add: urlforward_convert_def Number_Int64_def ParseInt_empty)

text \<open>
  Claim C3, amended. When the converter of \<^verbatim>\<open>dnsrecord\<close> succeeds, the ttl of the result is
  the parsed wire ttl, an empty wire priority has become the absent priority and any other
  wire priority its parsed value; when the ttl does not parse, or the priority is not empty
  and does not parse, the conversion returns an error. The converter of \<^verbatim>\<open>urlforward\<close>
  succeeds only with the parsed id as the id of the result, and returns the parse error for
  an id that does not parse, the empty one included. Nothing is said of the id of
  \<^verbatim>\<open>dnsrecord\<close>.
\<close>

theorem wire_integer_fields:
  "(\<forall>R. dnsrecord_convert r = Return (Inr R) \<longrightarrow>
        ParseInt (dnsrecord_TTL r) = Inr (DNSRecord_TTL R) \<and>
        (if dnsrecord_Priority r = '''' then DNSRecord_Priority R = None
         else \<exists>p. ParseInt (dnsrecord_Priority r) = Inr p \<and> DNSRecord_Priority R = Some p))
   \<and> (\<forall>e. ParseInt (dnsrecord_TTL r) = Inl e \<longrightarrow>
        (\<exists>e'. dnsrecord_convert r = Return (Inl e')))
   \<and> (\<forall>e. dnsrecord_Priority r \<noteq> '''' \<and> ParseInt (dnsrecord_Priority r) = Inl e \<longrightarrow>
        (\<exists>e'. dnsrecord_convert r = Return (Inl e')))
   \<and> (\<forall>F. urlforward_convert f = Inr F \<longrightarrow>
        (\<exists>i. ParseInt (urlforward_ID f) = Inr i \<and> URLForward_ID F = Some i))
   \<and> (\<forall>e. ParseInt (urlforward_ID f) = Inl e \<longrightarrow>
        urlforward_convert f = Inl (FailedToParseId e))"
proof (intro conjI allI impI)
  fix R assume "dnsrecord_convert r = Return (Inr R)"
  then show "ParseInt (dnsrecord_TTL r) = Inr (DNSRecord_TTL R)"
    by (auto simp: dnsrecord_convert_def Number_String_def Number_Int64_def Let_def
        split: if_splits sum.splits)
next
  fix R assume "dnsrecord_convert r = Return (Inr R)"
  then show "if dnsrecord_Priority r = '''' then DNSRecord_Priority R = None
         else \<exists>p. ParseInt (dnsrecord_Priority r) = Inr p \<and> DNSRecord_Priority R = Some p"
    by (auto simp: dnsrecord_convert_def Number_String_def Number_Int64_def Let_def
        split: if_splits sum.splits)
next
  fix e assume "ParseInt (dnsrecord_TTL r) = Inl e"
  then show "\<exists>e'. dnsrecord_convert r = Return (Inl e')"
    by (simp add: dnsrecord_convert_def Number_String_def Number_Int64_def ParseInt_empty)
next
  fix e assume "dnsrecord_Priority r \<noteq> '''' \<and> ParseInt (dnsrecord_Priority r) = Inl e"
  then show "\<exists>e'. dnsrecord_convert r = Return (Inl e')"
    by (simp add: dnsrecord_convert_def Number_String_def Number_Int64_def ParseInt_empty
        split: sum.splits)
next
  fix F assume "urlforward_convert f = Inr F"
  then show "\<exists>i. ParseInt (urlforward_ID f) = Inr i \<and> URLForward_ID F = Some i"
    by (auto simp: urlforward_convert_def Number_Int64_def Let_def split: if_splits sum.splits)
next
  fix e assume "ParseInt (urlforward_ID f) = Inl e"
  then show "urlforward_convert f = Inl (FailedToParseId e)"
    by (simp add: urlforward_convert_def Number_Int64_def)
qed

lemma ParseInt_600: "ParseInt ''600'' = Inr 600"
  by (simp add: ParseInt_def ParseUint_def digit_val_def)

lemma ParseInt_12: "ParseInt ''12'' = Inr 12"
  by (simp add: ParseInt_def ParseUint_def digit_val_def)

lemma ParseInt_abc: "ParseInt ''abc'' = Inl (NumError ''ParseInt'' ''abc'' ErrSyntax)"
  by (simp add: ParseInt_def ParseUint_def digit_val_def)

text \<open>
  Claim C3, amended, at concrete inputs: a record with ttl "600" and no priority, a record
  whose ttl and priority are "abc", a forward with id "12" and a forward with id "abc".
\<close>

theorem wire_integer_fields_witness:
  "dnsrecord_convert
     \<lparr>dnsrecord_ID = ''12'', dnsrecord_Subdomain = ''www'', dnsrecord_Type = ''A'',
      dnsrecord_Content = ''1.2.3.4'', dnsrecord_TTL = ''600'', dnsrecord_Priority = '''',
      dnsrecord_Notes = ''''\<rparr>
   = Return (Inr
     \<lparr>DNSRecord_ID = None, DNSRecord_Subdomain = ''www'', DNSRecord_Type = ''A'',
      DNSRecord_Content = ''1.2.3.4'', DNSRecord_TTL = 600, DNSRecord_Priority = None,
      DNSRecord_Notes = ''''\<rparr>)
   \<and> ParseInt ''600'' = Inr 600
   \<and> ParseInt ''abc'' = Inl (NumError ''ParseInt'' ''abc'' ErrSyntax)
   \<and> (\<exists>e'. dnsrecord_convert
       \<lparr>dnsrecord_ID = ''12'', dnsrecord_Subdomain = ''www'', dnsrecord_Type = ''A'',
        dnsrecord_Content = ''1.2.3.4'', dnsrecord_TTL = ''abc'', dnsrecord_Priority = ''abc'',
        dnsrecord_Notes = ''''\<rparr> = Return (Inl e'))
   \<and> urlforward_convert
     \<lparr>urlforward_ID = ''12'', urlforward_Subdomain = ''www'',
      urlforward_Location = ''https://example.org'', urlforward_Type = ''temporary'',
      urlforward_IncludePath = ''no'', urlforward_Wildcard = ''yes''\<rparr>
   = Inr \<lparr>URLForward_ID = Some 12, URLForward_Subdomain = ''www'',
      URLForward_Location = ''https://example.org'', URLForward_Type = ''temporary'',
      URLForward_IncludePath = False, URLForward_Wildcard = True\<rparr>
   \<and> urlforward_convert
     \<lparr>urlforward_ID = ''abc'', urlforward_Subdomain = ''www'',
      urlforward_Location = ''https://example.org'', urlforward_Type = ''temporary'',
      urlforward_IncludePath = ''no'', urlforward_Wildcard = ''yes''\<rparr>
   = Inl (FailedToParseId (NumError ''ParseInt'' ''abc'' ErrSyntax))"
proof -
  let ?r1 = "\<lparr>dnsrecord_ID = ''12'', dnsrecord_Subdomain = ''www'', dnsrecord_Type = ''A'',
      dnsrecord_Content = ''1.2.3.4'', dnsrecord_TTL = ''600'', dnsrecord_Priority = '''',
      dnsrecord_Notes = ''''\<rparr>"
  let ?r2 = "\<lparr>dnsrecord_ID = ''12'', dnsrecord_Subdomain = ''www'', dnsrecord_Type = ''A'',
        dnsrecord_Content = ''1.2.3.4'', dnsrecord_TTL = ''abc'', dnsrecord_Priority = ''abc'',
        dnsrecord_Notes = ''''\<rparr>"
  let ?f1 = "\<lparr>urlforward_ID = ''12'', urlforward_Subdomain = ''www'',
      urlforward_Location = ''https://example.org'', urlforward_Type = ''temporary'',
      urlforward_IncludePath = ''no'', urlforward_Wildcard = ''yes''\<rparr>"
  let ?f2 = "\<lparr>urlforward_ID = ''abc'', urlforward_Subdomain = ''www'',
      urlforward_Location = ''https://example.org'', urlforward_Type = ''temporary'',
      urlforward_IncludePath = ''no'', urlforward_Wildcard = ''yes''\<rparr>"
  have r1: "dnsrecord_convert ?r1 = Return (Inr
     \<lparr>DNSRecord_ID = None, DNSRecord_Subdomain = ''www'', DNSRecord_Type = ''A'',
      DNSRecord_Content = ''1.2.3.4'', DNSRecord_TTL = 600, DNSRecord_Priority = None,
      DNSRecord_Notes = ''''\<rparr>)"
    by (simp add: dnsrecord_convert_def Number_String_def Number_Int64_def ParseInt_600)
  have f1: "urlforward_convert ?f1 = Inr \<lparr>URLForward_ID = Some 12, URLForward_Subdomain = ''www'',
      URLForward_Location = ''https://example.org'', URLForward_Type = ''temporary'',
      URLForward_IncludePath = False, URLForward_Wildcard = True\<rparr>"
    by (simp add: urlforward_convert_def Number_Int64_def ParseInt_12)
  show ?thesis
    using r1 f1 ParseInt_abc wire_integer_fields [of ?r1 ?f1] wire_integer_fields [of ?r2 ?f2]
    by simp
qed

subsection \<open>Transport\<close>

lemma Client_do_heap:
  "heap (snd (snd (Client_do L Unmarshal c method path body response \<sigma>))) = heap \<sigma>"
  by (simp add: Client_do_def Let_def split: sum.splits prod.splits option.splits)

lemma Client_do_brk:
  "brk (snd (snd (Client_do L Unmarshal c method path body response \<sigma>))) = brk \<sigma>"
  by (simp add: Client_do_def Let_def split: sum.splits prod.splits option.splits)


text \<open>
  Claim C1, amended. Whenever \<^verbatim>\<open>do\<close> got as far as a decoded envelope, it returns no error
  for the status "SUCCESS"; for the status "ERROR" an error whose text is the fixed
  sentence \<^verbatim>\<open>Received 'ERROR' response status with the following message: \<close> followed by the
  message of the envelope; and for any other status an error whose text names the status
  received.
\<close>

theorem Client_do_status:
  assumes "Client_do L Unmarshal c method path body response \<sigma> = (err, envelope, \<sigma>')"
    and "\<not> io_failure err"
  shows "(Status envelope = ''SUCCESS'' \<longrightarrow> err = None)
       \<and> (Status envelope = ''ERROR'' \<longrightarrow>
            (\<exists>e. err = Some e \<and>
               Error quote e =
                 ''Received 'ERROR' response status with the following message: ''
                   @ Message envelope))
       \<and> (Status envelope \<noteq> ''SUCCESS'' \<and> Status envelope \<noteq> ''ERROR'' \<longrightarrow>
            (\<exists>e. err = Some e \<and>
               Error quote e =
                 ''Received unknown response status. Expected 'SUCCESS' or 'ERROR', got: ''
                   @ apostrophe @ Status envelope @ apostrophe @ ''.''))"
  using assms
  by (auto simp: Client_do_def Let_def getStatus_def getMessage_def
      split: sum.splits prod.splits option.splits if_splits)

lemmas scripted_defs =
  plain_stdlib_def scripted_Client_def scripted_def scripted_world_def Unmarshal_body_def
  Marshal_body_def getStatus_def getMessage_def

lemma NewClient_scripted:
  "NewClient scripted apiKey secretAPIKey False
     \<lparr>heap = (\<lambda>a. \<lparr>APIKey = [], SecretAPIKey = []\<rparr>), brk = 0, net = (script, [])\<rparr>
   = (scripted_Client,
      scripted_world \<lparr>APIKey = apiKey, SecretAPIKey = secretAPIKey\<rparr> script)"
  by (simp add: NewClient_def scripted_Client_def scripted_world_def)

text \<open>
  Claim C1, amended, on the scripted network: one run for each of the statuses "SUCCESS",
  "ERROR" and "PENDING".
\<close>

theorem Client_do_status_witness:
  "fst (Client_do plain_stdlib Unmarshal_body scripted_Client ''POST'' ''ping'' None
         \<lparr>Status = [], Message = []\<rparr>
         (scripted_world \<lparr>APIKey = ''pk1'', SecretAPIKey = ''sk1''\<rparr>
            [ResponseBody \<lparr>Status = ''SUCCESS'', Message = []\<rparr> :: (unit, Status) body]))
     = None
   \<and> fst (Client_do plain_stdlib Unmarshal_body scripted_Client ''POST'' ''ping'' None
         \<lparr>Status = [], Message = []\<rparr>
         (scripted_world \<lparr>APIKey = ''pk1'', SecretAPIKey = ''sk1''\<rparr>
            [ResponseBody \<lparr>Status = ''ERROR'', Message = ''not found''\<rparr> :: (unit, Status) body]))
     = Some (ErrorStatus ''not found'')
   \<and> Error id (ErrorStatus ''not found'')
     = ''Received 'ERROR' response status with the following message: not found''
   \<and> fst (Client_do plain_stdlib Unmarshal_body scripted_Client ''POST'' ''ping'' None
         \<lparr>Status = [], Message = []\<rparr>
         (scripted_world \<lparr>APIKey = ''pk1'', SecretAPIKey = ''sk1''\<rparr>
            [ResponseBody \<lparr>Status = ''PENDING'', Message = []\<rparr> :: (unit, Status) body]))
     = Some (UnknownStatus ''PENDING'')
   \<and> Error id (UnknownStatus ''PENDING'')
     = ''Received unknown response status. Expected 'SUCCESS' or 'ERROR', got: 'PENDING'.''"
proof -
  let ?run = "\<lambda>r. Client_do plain_stdlib Unmarshal_body scripted_Client ''POST'' ''ping'' None
         \<lparr>Status = [], Message = []\<rparr>
         (scripted_world \<lparr>APIKey = ''pk1'', SecretAPIKey = ''sk1''\<rparr>
            [ResponseBody r :: (unit, Status) body])"
  have run: "?run r = (fst (?run r), fst (snd (?run r)), snd (snd (?run r)))" for r
    by simp
  have env: "fst (snd (?run r)) = r" for r
    by (simp add: Client_do_def scripted_defs Let_def)
  have err: "fst (?run r) =
      (if Status r = ''SUCCESS'' then None
       else if Status r = ''ERROR'' then Some (ErrorStatus (Message r))
       else Some (UnknownStatus (Status r)))" for r
    by (simp add: Client_do_def scripted_defs Let_def)
  have ok: "\<not> io_failure (fst (?run r))" for r
    by (simp add: err)
  note t = Client_do_status [OF run ok, where quote = id]
  show ?thesis
    using t [of "\<lparr>Status = ''SUCCESS'', Message = []\<rparr>"]
      t [of "\<lparr>Status = ''ERROR'', Message = ''not found''\<rparr>"]
      t [of "\<lparr>Status = ''PENDING'', Message = []\<rparr>"]
    by (simp add: env err apostrophe_def)
qed

text \<open>
  Claim C1 says that the error for the status "ERROR" has the message of the envelope as
  its message. For the envelope with message "not found", the text of the error is not
  "not found".
\<close>

theorem Client_do_error_message_counterexample:
  "fst (Client_do plain_stdlib Unmarshal_body scripted_Client ''POST'' ''ping'' None
         \<lparr>Status = [], Message = []\<rparr>
         (scripted_world \<lparr>APIKey = ''pk1'', SecretAPIKey = ''sk1''\<rparr>
            [ResponseBody \<lparr>Status = ''ERROR'', Message = ''not found''\<rparr> :: (unit, Status) body]))
     = Some (ErrorStatus ''not found'')
   \<and> Error id (ErrorStatus ''not found'') \<noteq> ''not found''"
  by (simp add: Client_do_def scripted_defs Let_def)


lemma Credentials_overwrite:
  "(x :: Credentials)\<lparr>APIKey := APIKey k, SecretAPIKey := SecretAPIKey k\<rparr> = k"
  by (rule Credentials.equality) simp_all

text \<open>
  Claim C9. After \<^verbatim>\<open>post\<close>, the \<^verbatim>\<open>Credentials\<close> of the client are what they were, the
  \<^verbatim>\<open>Credentials\<close> of the request are those of the client, and no other struct has changed,
  also when the request is the client's own \<^verbatim>\<open>Credentials\<close>. What \<^verbatim>\<open>json.Marshal\<close> is given
  is the request with the credentials of the client: its error is returned, or its bytes are
  the body that \<^verbatim>\<open>do\<close> posts.
\<close>

theorem Client_post_credentials:
  assumes "Client_post L Marshal Unmarshal c path (r, p) res \<sigma> = (err, res', \<sigma>')"
  shows "heap \<sigma>' (Client_Credentials c) = heap \<sigma> (Client_Credentials c)
       \<and> heap \<sigma>' r = heap \<sigma> (Client_Credentials c)
       \<and> (\<forall>a. a \<noteq> r \<longrightarrow> heap \<sigma>' a = heap \<sigma> a)
       \<and> (case Marshal (heap \<sigma> (Client_Credentials c)) p of
            Inl e \<Rightarrow> err = Some (FailedToMarshal e) \<and> net \<sigma>' = net \<sigma>
          | Inr body \<Rightarrow>
              (err, res', \<sigma>') =
                Client_do L Unmarshal c ''POST'' path (Some body) res
                  (\<sigma>\<lparr>heap := (heap \<sigma>)(r := heap \<sigma> (Client_Credentials c))\<rparr>))"
proof -
  let ?k = "heap \<sigma> (Client_Credentials c)"
  let ?\<sigma>1 = "setAPIKey r (APIKey ?k) \<sigma>"
  let ?\<sigma>2 = "setSecretAPIKey r (SecretAPIKey (heap ?\<sigma>1 (Client_Credentials c))) ?\<sigma>1"
  have stamped: "?\<sigma>2 = \<sigma>\<lparr>heap := (heap \<sigma>)(r := ?k)\<rparr>"
    by (cases "r = Client_Credentials c")
      (simp_all add: setAPIKey_def setSecretAPIKey_def Credentials_overwrite)
  have post: "Client_post L Marshal Unmarshal c path (r, p) res \<sigma> =
      (case Marshal (heap ?\<sigma>2 r) p of
         Inl e \<Rightarrow> (Some (FailedToMarshal e), res, ?\<sigma>2)
       | Inr body \<Rightarrow> Client_do L Unmarshal c ''POST'' path (Some body) res ?\<sigma>2)"
    by (simp add: Client_post_def Let_def)
  show ?thesis
  proof (cases "Marshal ?k p")
    case (Inl e)
    then show ?thesis
      using assms post by (auto simp: stamped)
  next
    case (Inr body)
    then have run: "Client_do L Unmarshal c ''POST'' path (Some body) res
        (\<sigma>\<lparr>heap := (heap \<sigma>)(r := ?k)\<rparr>) = (err, res', \<sigma>')"
      using assms post by (simp add: stamped)
    have "heap \<sigma>' = (heap \<sigma>)(r := ?k)"
      using Client_do_heap [of L Unmarshal c "''POST''" path "Some body" res
          "\<sigma>\<lparr>heap := (heap \<sigma>)(r := ?k)\<rparr>"] run by simp
    then show ?thesis
      using Inr run by simp
  qed
qed

text \<open>
  Claim C9, on the scripted network: the client at address 0, an empty request at address 1.
\<close>

theorem Client_post_credentials_witness:
  "heap (snd (snd (Client_post plain_stdlib Marshal_body Unmarshal_body scripted_Client ''ping''
           (1, ()) \<lparr>Status = [], Message = []\<rparr>
           (scripted_world \<lparr>APIKey = ''pk1'', SecretAPIKey = ''sk1''\<rparr>
              [ResponseBody \<lparr>Status = ''SUCCESS'', Message = []\<rparr>])))) 0
     = \<lparr>APIKey = ''pk1'', SecretAPIKey = ''sk1''\<rparr>
   \<and> heap (snd (snd (Client_post plain_stdlib Marshal_body Unmarshal_body scripted_Client ''ping''
           (1, ()) \<lparr>Status = [], Message = []\<rparr>
           (scripted_world \<lparr>APIKey = ''pk1'', SecretAPIKey = ''sk1''\<rparr>
              [ResponseBody \<lparr>Status = ''SUCCESS'', Message = []\<rparr>])))) 1
     = \<lparr>APIKey = ''pk1'', SecretAPIKey = ''sk1''\<rparr>
   \<and> map Body (snd (net (snd (snd (Client_post plain_stdlib Marshal_body Unmarshal_body
           scripted_Client ''ping'' (1, ()) \<lparr>Status = [], Message = []\<rparr>
           (scripted_world \<lparr>APIKey = ''pk1'', SecretAPIKey = ''sk1''\<rparr>
              [ResponseBody \<lparr>Status = ''SUCCESS'', Message = []\<rparr>]))))))
     = [Some (RequestBody \<lparr>APIKey = ''pk1'', SecretAPIKey = ''sk1''\<rparr> ())]"
proof -
  let ?\<sigma> = "scripted_world \<lparr>APIKey = ''pk1'', SecretAPIKey = ''sk1''\<rparr>
              [ResponseBody \<lparr>Status = ''SUCCESS'', Message = []\<rparr> :: (unit, Status) body]"
  let ?run = "Client_post plain_stdlib Marshal_body Unmarshal_body scripted_Client ''ping''
           (1, ()) \<lparr>Status = [], Message = []\<rparr> ?\<sigma>"
  have run: "?run = (fst ?run, fst (snd ?run), snd (snd ?run))"
    by simp
  show ?thesis
    using Client_post_credentials [OF run]
    by (simp add: Client_post_def Client_do_def setAPIKey_def setSecretAPIKey_def scripted_defs
        Let_def)
qed

subsection \<open>Listing calls and pagination\<close>

lemma convert_each_total:
  assumes "\<And>w m. conv w \<noteq> Panic m"
  shows "convert_each conv ws out errs =
     Return (out @ map (\<lambda>w. case conv w of Return (Inr d) \<Rightarrow> Some d | _ \<Rightarrow> None) ws,
             errs @ List.map_filter (\<lambda>w. case conv w of Return (Inl e) \<Rightarrow> Some e | _ \<Rightarrow> None) ws)"
proof (induction ws arbitrary: out errs)
  case Nil
  then show ?case by (simp add: List.map_filter_simps)
next
  case (Cons w ws)
  show ?case
  proof (cases "conv w")
    case (Return x)
    then show ?thesis
      using Cons.IH by (cases x) (simp_all add: List.map_filter_simps)
  next
    case (Panic m)
    then show ?thesis using assms by simp
  qed
qed

lemma convert_each_Return:
  "convert_each (\<lambda>w. Return (conv w)) ws [] [] =
     Return (map (\<lambda>w. case conv w of Inl e \<Rightarrow> None | Inr d \<Rightarrow> Some d) ws,
             List.map_filter (\<lambda>w. case conv w of Inl e \<Rightarrow> Some e | Inr d \<Rightarrow> None) ws)"
proof -
  have a: "(\<lambda>w. case Return (conv w) of Return (Inr d) \<Rightarrow> Some d | _ \<Rightarrow> None)
      = (\<lambda>w. case conv w of Inl e \<Rightarrow> None | Inr d \<Rightarrow> Some d)"
    by (auto split: sum.splits)
  have b: "(\<lambda>w. case Return (conv w) of Return (Inl e) \<Rightarrow> Some e | _ \<Rightarrow> None)
      = (\<lambda>w. case conv w of Inl e \<Rightarrow> Some e | Inr d \<Rightarrow> None)"
    by (auto split: sum.splits)
  show ?thesis
    using convert_each_total [of "\<lambda>w. Return (conv w)" ws "[]" "[]"] by (simp add: a b)
qed

lemma convert_each_dnsrecord:
  "convert_each dnsrecord_convert ws [] [] =
     Return (map (\<lambda>w. case dnsrecord_convert w of Return (Inr d) \<Rightarrow> Some d | _ \<Rightarrow> None) ws,
             List.map_filter
               (\<lambda>w. case dnsrecord_convert w of Return (Inl e) \<Rightarrow> Some e | _ \<Rightarrow> None) ws)"
  using convert_each_total [of dnsrecord_convert ws "[]" "[]"] dnsrecord_convert_no_panic
  by simp

text \<open>
  Claim C8. Each of \<^verbatim>\<open>DomainList\<close>, \<^verbatim>\<open>URLForwards\<close>, \<^verbatim>\<open>DNSRecords\<close> and
  \<^verbatim>\<open>DNSRecordsByTypeName\<close> returns, when
  \<^verbatim>\<open>post\<close> returns an error, no record and that error alone; and otherwise one entry for each
  record of the response, in order, which is the converted record or nil where the conversion
  failed, together with the errors of the failed conversions, in order.
\<close>

theorem listing_calls_collect_errors:
  "Client_DomainList L M1 U1 c start \<sigma> =
     (case Client_post L M1 U1 c ''domain/listAll'' (brk \<sigma>, start)
             \<lparr>Status = [], Message = [], Domains = []\<rparr> (snd (new_Credentials \<sigma>)) of
        (Some err, res, \<sigma>') \<Rightarrow> (Return ([], [err]), \<sigma>')
      | (None, res, \<sigma>') \<Rightarrow>
          (Return
             (map (\<lambda>w. case domain_convert w of Inl e \<Rightarrow> None | Inr d \<Rightarrow> Some d) (Domains res),
              List.map_filter (\<lambda>w. case domain_convert w of Inl e \<Rightarrow> Some e | Inr d \<Rightarrow> None)
                (Domains res)),
           \<sigma>'))
   \<and> Client_URLForwards L M2 U2 c domain \<sigma> =
     (case Client_post L M2 U2 c (''domain/getUrlForwarding/'' @ domain) (brk \<sigma>, ())
             \<lparr>Status = [], Message = [], Forwards = []\<rparr> (snd (new_Credentials \<sigma>)) of
        (Some err, res, \<sigma>') \<Rightarrow> (Return ([], [err]), \<sigma>')
      | (None, res, \<sigma>') \<Rightarrow>
          (Return
             (map (\<lambda>w. case urlforward_convert w of Inl e \<Rightarrow> None | Inr d \<Rightarrow> Some d)
                (Forwards res),
              List.map_filter (\<lambda>w. case urlforward_convert w of Inl e \<Rightarrow> Some e | Inr d \<Rightarrow> None)
                (Forwards res)),
           \<sigma>'))
   \<and> Client_DNSRecords L M3 U3 c domain ident \<sigma> =
     (case Client_post L M3 U3 c
             (case ident of None \<Rightarrow> ''dns/retrieve/'' @ domain
              | Some i \<Rightarrow> ''dns/retrieve/'' @ domain @ ''/'' @ FormatInt i)
             (brk \<sigma>, ()) \<lparr>Status = [], Message = [], Records = []\<rparr>
             (snd (new_Credentials \<sigma>)) of
        (Some err, res, \<sigma>') \<Rightarrow> (Return ([], [err]), \<sigma>')
      | (None, res, \<sigma>') \<Rightarrow>
          (Return
             (map (\<lambda>w. case dnsrecord_convert w of Return (Inr d) \<Rightarrow> Some d | _ \<Rightarrow> None)
                (Records res),
              List.map_filter
                (\<lambda>w. case dnsrecord_convert w of Return (Inl e) \<Rightarrow> Some e | _ \<Rightarrow> None)
                (Records res)),
           \<sigma>'))
   \<and> Client_DNSRecordsByTypeName L M3 U3 c domain type subdomain \<sigma> =
     (case Client_post L M3 U3 c
             (if subdomain \<noteq> [] then ''dns/retrieveByNameType/'' @ domain @ ''/'' @ type @ ''/''
                @ subdomain
              else ''dns/retrieveByNameType/'' @ domain @ ''/'' @ type)
             (brk \<sigma>, ()) \<lparr>Status = [], Message = [], Records = []\<rparr>
             (snd (new_Credentials \<sigma>)) of
        (Some err, res, \<sigma>') \<Rightarrow> (Return ([], [err]), \<sigma>')
      | (None, res, \<sigma>') \<Rightarrow>
          (Return
             (map (\<lambda>w. case dnsrecord_convert w of Return (Inr d) \<Rightarrow> Some d | _ \<Rightarrow> None)
                (Records res),
              List.map_filter
                (\<lambda>w. case dnsrecord_convert w of Return (Inl e) \<Rightarrow> Some e | _ \<Rightarrow> None)
                (Records res)),
           \<sigma>'))"
proof (intro conjI)
  show "Client_DomainList L M1 U1 c start \<sigma> =
     (case Client_post L M1 U1 c ''domain/listAll'' (brk \<sigma>, start)
             \<lparr>Status = [], Message = [], Domains = []\<rparr> (snd (new_Credentials \<sigma>)) of
        (Some err, res, \<sigma>') \<Rightarrow> (Return ([], [err]), \<sigma>')
      | (None, res, \<sigma>') \<Rightarrow>
          (Return
             (map (\<lambda>w. case domain_convert w of Inl e \<Rightarrow> None | Inr d \<Rightarrow> Some d) (Domains res),
              List.map_filter (\<lambda>w. case domain_convert w of Inl e \<Rightarrow> Some e | Inr d \<Rightarrow> None)
                (Domains res)),
           \<sigma>'))"
    by (simp add: Client_DomainList_def new_Credentials_def convert_each_Return
        split: prod.splits option.splits)
next
  show "Client_URLForwards L M2 U2 c domain \<sigma> =
     (case Client_post L M2 U2 c (''domain/getUrlForwarding/'' @ domain) (brk \<sigma>, ())
             \<lparr>Status = [], Message = [], Forwards = []\<rparr> (snd (new_Credentials \<sigma>)) of
        (Some err, res, \<sigma>') \<Rightarrow> (Return ([], [err]), \<sigma>')
      | (None, res, \<sigma>') \<Rightarrow>
          (Return
             (map (\<lambda>w. case urlforward_convert w of Inl e \<Rightarrow> None | Inr d \<Rightarrow> Some d)
                (Forwards res),
              List.map_filter (\<lambda>w. case urlforward_convert w of Inl e \<Rightarrow> Some e | Inr d \<Rightarrow> None)
                (Forwards res)),
           \<sigma>'))"
    by (simp add: Client_URLForwards_def new_Credentials_def convert_each_Return
        split: prod.splits option.splits)
next
  show "Client_DNSRecords L M3 U3 c domain ident \<sigma> =
     (case Client_post L M3 U3 c
             (case ident of None \<Rightarrow> ''dns/retrieve/'' @ domain
              | Some i \<Rightarrow> ''dns/retrieve/'' @ domain @ ''/'' @ FormatInt i)
             (brk \<sigma>, ()) \<lparr>Status = [], Message = [], Records = []\<rparr>
             (snd (new_Credentials \<sigma>)) of
        (Some err, res, \<sigma>') \<Rightarrow> (Return ([], [err]), \<sigma>')
      | (None, res, \<sigma>') \<Rightarrow>
          (Return
             (map (\<lambda>w. case dnsrecord_convert w of Return (Inr d) \<Rightarrow> Some d | _ \<Rightarrow> None)
                (Records res),
              List.map_filter
                (\<lambda>w. case dnsrecord_convert w of Return (Inl e) \<Rightarrow> Some e | _ \<Rightarrow> None)
                (Records res)),
           \<sigma>'))"
    by (simp add: Client_DNSRecords_def new_Credentials_def convert_each_dnsrecord Let_def
        split: prod.splits option.splits)
next
  show "Client_DNSRecordsByTypeName L M3 U3 c domain type subdomain \<sigma> =
     (case Client_post L M3 U3 c
             (if subdomain \<noteq> [] then ''dns/retrieveByNameType/'' @ domain @ ''/'' @ type @ ''/''
                @ subdomain
              else ''dns/retrieveByNameType/'' @ domain @ ''/'' @ type)
             (brk \<sigma>, ()) \<lparr>Status = [], Message = [], Records = []\<rparr>
             (snd (new_Credentials \<sigma>)) of
        (Some err, res, \<sigma>') \<Rightarrow> (Return ([], [err]), \<sigma>')
      | (None, res, \<sigma>') \<Rightarrow>
          (Return
             (map (\<lambda>w. case dnsrecord_convert w of Return (Inr d) \<Rightarrow> Some d | _ \<Rightarrow> None)
                (Records res),
              List.map_filter
                (\<lambda>w. case dnsrecord_convert w of Return (Inl e) \<Rightarrow> Some e | _ \<Rightarrow> None)
                (Records res)),
           \<sigma>'))"
    by (simp add: Client_DNSRecordsByTypeName_def new_Credentials_def convert_each_dnsrecord
        Let_def split: prod.splits option.splits)
qed

lemma append_models_Some:
  "append_models models (map Some page) = Return (models @ map to_domainModel page)"
  by (induction page arbitrary: models) simp_all

lemma Read_pages_serves:
  assumes "serves list start \<sigma> pages \<sigma>'"
    and "pages \<noteq> []"
    and "\<forall>p \<in> set (butlast pages). length p = 1000"
    and "length (last pages) < 1000"
  shows "Read_pages quote list start models \<sigma> =
     Some (Return (models @ map to_domainModel (concat pages), []), \<sigma>')"
  using assms
proof (induction pages arbitrary: start models \<sigma>)
  case Nil
  then show ?case by simp
next
  case (Cons page pages)
  obtain \<sigma>1 where call: "list start \<sigma> = (Return (map Some page, []), \<sigma>1)"
    and rest: "serves list (start + 1000) \<sigma>1 pages \<sigma>'"
    using Cons.prems(1) by (cases "list start \<sigma>") simp
  show ?case
  proof (cases "pages = []")
    case True
    then have "length page < 1000" and "\<sigma>' = \<sigma>1"
      using Cons.prems(4) rest by simp_all
    then show ?thesis
      using call True by (subst Read_pages.simps) (simp add: append_models_Some)
  next
    case False
    then have full: "length page = 1000"
      using Cons.prems(3) by simp
    have "Read_pages quote list (start + 1000) (models @ map to_domainModel page) \<sigma>1 =
        Some (Return ((models @ map to_domainModel page) @ map to_domainModel (concat pages), []),
              \<sigma>')"
      using Cons.IH [OF rest False] Cons.prems(3,4) False by simp
    then show ?thesis
      using call full by (subst Read_pages.simps) (simp add: append_models_Some)
  qed
qed

lemma serves_logged:
  "serves list start \<sigma> pages \<sigma>' \<Longrightarrow>
   serves (logged list) start (\<sigma>, log) pages
     (\<sigma>', log @ map (\<lambda>i. start + 1000 * word_of_nat i) [0..<length pages])"
proof (induction pages arbitrary: start \<sigma> log)
  case Nil
  then show ?case by simp
next
  case (Cons page pages)
  have shift: "map (\<lambda>i. start + 1000 * word_of_nat i) [0..<Suc (length pages)] =
      start # map (\<lambda>i. (start + 1000) + 1000 * word_of_nat i) [0..<length pages]"
    by (simp add: upt_conv_Cons map_Suc_upt [symmetric] algebra_simps del: upt_Suc)
  from Cons.prems have first: "fst (list start \<sigma>) = Return (map Some page, [])"
    and rest: "serves list (start + 1000) (snd (list start \<sigma>)) pages \<sigma>'"
    by simp_all
  show ?case
    using first Cons.IH [OF rest, of "log @ [start]"] shift
    by (simp add: logged_def)
qed


lemma Client_DomainList_post:
  "Client_DomainList L Marshal Unmarshal c start \<sigma> =
     (case Client_post L Marshal Unmarshal c ''domain/listAll'' (fst (new_Credentials \<sigma>), start)
             \<lparr>Status = [], Message = [], Domains = []\<rparr> (snd (new_Credentials \<sigma>)) of
        (Some err, res, \<sigma>') \<Rightarrow> (Return ([], [err]), \<sigma>')
      | (None, res, \<sigma>') \<Rightarrow>
          (convert_each (\<lambda>d. Return (domain_convert d)) (Domains res) [] [], \<sigma>'))"
  by (simp add: Client_DomainList_def case_prod_beta Let_def split: option.split)

lemma domain_convert_Inr:
  assumes "domain_convert w = Inr d"
  shows "d = \<lparr>Domain_Domain = domain_Domain w, Domain_Status = domain_Status w,
       Domain_TLD = domain_TLD w, Domain_CreateDate = domain_CreateDate w,
       Domain_ExpireDate = domain_ExpireDate w,
       Domain_SecurityLock = (domain_SecurityLock w = ''1''),
       Domain_WhoisPrivacy = (domain_NotLocal w = ''1''),
       Domain_AutoRenew = (domain_NotLocal w = ''1''),
       Domain_NotLocal = (domain_NotLocal w = ''1'')\<rparr>"
  using assms
  by (auto simp: domain_convert_def Number_String_def Let_def split: if_splits)

lemma to_domainModel_convert:
  assumes "domain_convert w = Inr d"
  shows "to_domainModel d =
     \<lparr>domainModel_Domain = domain_Domain w, domainModel_Status = domain_Status w,
      domainModel_TLD = domain_TLD w, domainModel_CreateDate = domain_CreateDate w,
      domainModel_ExpireDate = domain_ExpireDate w,
      domainModel_SecurityLock = (domain_SecurityLock w = ''1''),
      domainModel_WhoisPrivacy = (domain_NotLocal w = ''1''),
      domainModel_AutoRenew = (domain_NotLocal w = ''1''),
      domainModel_NotLocal = (domain_NotLocal w = ''1'')\<rparr>"
  by (simp add: domain_convert_Inr [OF assms] to_domainModel_def)

lemma convert_each_all_convert:
  assumes "\<forall>w \<in> set page. \<exists>d. domain_convert w = Inr d"
  shows "convert_each (\<lambda>d. Return (domain_convert d)) page [] [] =
     Return (map Some (map (\<lambda>w. projr (domain_convert w)) page), [])"
proof -
  have a: "map (\<lambda>w. case domain_convert w of Inl e \<Rightarrow> None | Inr d \<Rightarrow> Some d) page =
      map Some (map (\<lambda>w. projr (domain_convert w)) page)"
    using assms by (induction page) auto
  have b: "List.map_filter (\<lambda>w. case domain_convert w of Inl e \<Rightarrow> Some e | Inr d \<Rightarrow> None) page
      = []"
    using assms by (induction page) (auto simp: List.map_filter_simps)
  show ?thesis
    by (simp only: convert_each_Return a b)
qed

lemma serves_pages_serves:
  assumes "serves_pages L Marshal Unmarshal c start \<sigma> pages \<sigma>'"
    and "\<forall>w \<in> set (concat pages). \<exists>d. domain_convert w = Inr d"
  shows "serves (Client_DomainList L Marshal Unmarshal c) start \<sigma>
     (map (map (\<lambda>w. projr (domain_convert w))) pages) \<sigma>'"
  using assms
proof (induction pages arbitrary: start \<sigma>)
  case Nil
  then show ?case by simp
next
  case (Cons page pages)
  let ?r = "Client_post L Marshal Unmarshal c ''domain/listAll'' (fst (new_Credentials \<sigma>), start)
      \<lparr>Status = [], Message = [], Domains = []\<rparr> (snd (new_Credentials \<sigma>))"
  from Cons.prems(1) have ok: "fst ?r = None" and page: "Domains (fst (snd ?r)) = page"
    and rest: "serves_pages L Marshal Unmarshal c (start + 1000) (snd (snd ?r)) pages \<sigma>'"
    by (simp_all add: Let_def)
  have conv: "\<forall>w \<in> set page. \<exists>d. domain_convert w = Inr d"
    and conv': "\<forall>w \<in> set (concat pages). \<exists>d. domain_convert w = Inr d"
    using Cons.prems(2) by auto
  have call: "Client_DomainList L Marshal Unmarshal c start \<sigma> =
      (Return (map Some (map (\<lambda>w. projr (domain_convert w)) page), []), snd (snd ?r))"
    using ok page convert_each_all_convert [OF conv]
    by (cases ?r) (simp add: Client_DomainList_post)
  show ?case
    using call Cons.IH [OF rest conv'] by simp
qed

lemma models_of_pages:
  assumes "\<forall>w \<in> set ws. \<exists>d. domain_convert w = Inr d"
  shows "map to_domainModel (map (\<lambda>w. projr (domain_convert w)) ws) =
     map (\<lambda>w. \<lparr>domainModel_Domain = domain_Domain w, domainModel_Status = domain_Status w,
               domainModel_TLD = domain_TLD w, domainModel_CreateDate = domain_CreateDate w,
               domainModel_ExpireDate = domain_ExpireDate w,
               domainModel_SecurityLock = (domain_SecurityLock w = ''1''),
               domainModel_WhoisPrivacy = (domain_NotLocal w = ''1''),
               domainModel_AutoRenew = (domain_NotLocal w = ''1''),
               domainModel_NotLocal = (domain_NotLocal w = ''1'')\<rparr>) ws"
  using assms
proof (induction ws)
  case Nil
  then show ?case by simp
next
  case (Cons w ws)
  then obtain d where d: "domain_convert w = Inr d" by auto
  show ?case
    using Cons d to_domainModel_convert [OF d] by simp
qed

lemma example_domain_convert: "domain_convert example_domain = Inr example_Domain"
  by (simp add: domain_convert_def example_domain_def example_Domain_def Number_String_def)

lemma map_filter_replicate_None:
  "f x = None \<Longrightarrow> List.map_filter f (replicate n x) = []"
  by (induction n) (simp_all add: List.map_filter_simps)

lemma convert_each_replicate:
  "convert_each (\<lambda>d. Return (domain_convert d)) (replicate n example_domain) [] [] =
     Return (map Some (replicate n example_Domain), [])"
  by (simp add: convert_each_Return example_domain_convert map_filter_replicate_None)

lemma Credentials_eta: "\<lparr>APIKey = APIKey k, SecretAPIKey = SecretAPIKey k\<rparr> = k"
  by (cases k) simp

lemma scripted_DomainList:
  assumes "b \<noteq> 0"
  shows "Client_DomainList plain_stdlib Marshal_body Unmarshal_body scripted_Client start
       \<lparr>heap = h, brk = b, net = (page_body ds # script, log)\<rparr> =
     (convert_each (\<lambda>d. Return (domain_convert d)) ds [] [],
      \<lparr>heap = h(b := h 0), brk = Suc b, net = (script, log @ [listAll_request (h 0) start])\<rparr>)"
  using assms
  by (simp add: Client_DomainList_def new_Credentials_def Client_post_def Client_do_def
      setAPIKey_def setSecretAPIKey_def scripted_defs Let_def page_body_def listAll_request_def
      Credentials_overwrite Credentials_eta)

lemma scripted_post:
  assumes "b \<noteq> 0"
  shows "Client_post plain_stdlib Marshal_body Unmarshal_body scripted_Client ''domain/listAll''
       (b, start) \<lparr>Status = [], Message = [], Domains = []\<rparr>
       \<lparr>heap = h(b := \<lparr>APIKey = [], SecretAPIKey = []\<rparr>), brk = Suc b,
        net = (page_body ds # script, log)\<rparr> =
     (None, \<lparr>Status = ''SUCCESS'', Message = [], Domains = ds\<rparr>,
      \<lparr>heap = h(b := h 0), brk = Suc b, net = (script, log @ [listAll_request (h 0) start])\<rparr>)"
  using assms
  by (simp add: Client_post_def Client_do_def setAPIKey_def setSecretAPIKey_def scripted_defs
      Let_def page_body_def listAll_request_def Credentials_overwrite Credentials_eta)

text \<open>
  Two records of one page that fail with the same text give one diagnostic: the second
  \<^verbatim>\<open>AddError\<close> finds the first.
\<close>

lemma Read_adds_equal_diagnostics_once:
  "Read plain_stdlib Marshal_body Unmarshal_body scripted_Client
     \<lparr>heap = (\<lambda>a. \<lparr>APIKey = ''pk1'', SecretAPIKey = ''sk1''\<rparr>), brk = 1,
      net = ([page_body [example_domain\<lparr>domain_SecurityLock := ''2''\<rparr>, example_domain,
                         example_domain\<lparr>domain_SecurityLock := ''2''\<rparr>]], [])\<rparr>
   = Some (Return ([], [\<lparr>Summary = ''Client Error'',
                         Detail = Error (\<lambda>s. s) (ExpectedSecurityLock ''2'')\<rparr>]),
      \<lparr>heap = (\<lambda>a. \<lparr>APIKey = ''pk1'', SecretAPIKey = ''sk1''\<rparr>), brk = 2,
       net = ([], [listAll_request \<lparr>APIKey = ''pk1'', SecretAPIKey = ''sk1''\<rparr> 0])\<rparr>)"
proof -
  let ?k = "\<lparr>APIKey = ''pk1'', SecretAPIKey = ''sk1''\<rparr>"
  let ?h = "\<lambda>a::addr. ?k"
  have h: "?h(b := ?k) = ?h" for b
    by auto
  have bad: "domain_convert (example_domain\<lparr>domain_SecurityLock := ''2''\<rparr>) =
      Inl (ExpectedSecurityLock ''2'')"
    by (simp add: domain_convert_def example_domain_def Number_String_def)
  have page: "convert_each (\<lambda>d. Return (domain_convert d))
      [example_domain\<lparr>domain_SecurityLock := ''2''\<rparr>, example_domain,
       example_domain\<lparr>domain_SecurityLock := ''2''\<rparr>] [] [] =
      Return ([None, Some example_Domain, None],
              [ExpectedSecurityLock ''2'', ExpectedSecurityLock ''2''])"
    by (simp add: convert_each_Return bad example_domain_convert List.map_filter_simps)
  have call: "Client_DomainList plain_stdlib Marshal_body Unmarshal_body scripted_Client 0
      \<lparr>heap = ?h, brk = 1,
       net = ([page_body [example_domain\<lparr>domain_SecurityLock := ''2''\<rparr>, example_domain,
                          example_domain\<lparr>domain_SecurityLock := ''2''\<rparr>]], [])\<rparr> =
      (Return ([None, Some example_Domain, None],
               [ExpectedSecurityLock ''2'', ExpectedSecurityLock ''2'']),
       \<lparr>heap = ?h, brk = 2, net = ([], [listAll_request ?k 0])\<rparr>)"
    using scripted_DomainList [where b = 1 and h = ?h and start = 0
        and ds = "[example_domain\<lparr>domain_SecurityLock := ''2''\<rparr>, example_domain,
                   example_domain\<lparr>domain_SecurityLock := ''2''\<rparr>]"
        and script = "[]" and log = "[]"]
    by (simp only: page h) simp
  show ?thesis
    unfolding Read_def using call
    by (subst Read_pages.simps) (simp add: AddError_def plain_stdlib_def)
qed

text \<open>
  Claim C7 says that, for pages of which only the last is short, \<^verbatim>\<open>Read\<close> makes one call
  for each page and returns the records of all of them. On the scripted network, with a
  first page of 1000 domains of which the first has the security lock "2" and a second page
  of 400 domains, \<^verbatim>\<open>Read\<close> makes one call, at offset 0, leaves the second page unasked
  for, and returns no record and the diagnostic of the conversion error.
\<close>

theorem Read_stops_at_conversion_error_counterexample:
  "Read plain_stdlib Marshal_body Unmarshal_body scripted_Client
     \<lparr>heap = (\<lambda>a. \<lparr>APIKey = ''pk1'', SecretAPIKey = ''sk1''\<rparr>), brk = 1,
      net = ([page_body (example_domain\<lparr>domain_SecurityLock := ''2''\<rparr>
                         # replicate 999 example_domain),
              page_body (replicate 400 example_domain)], [])\<rparr>
   = Some (Return ([], [\<lparr>Summary = ''Client Error'',
                         Detail = Error (\<lambda>s. s) (ExpectedSecurityLock ''2'')\<rparr>]),
      \<lparr>heap = (\<lambda>a. \<lparr>APIKey = ''pk1'', SecretAPIKey = ''sk1''\<rparr>), brk = 2,
       net = ([page_body (replicate 400 example_domain)],
              [listAll_request \<lparr>APIKey = ''pk1'', SecretAPIKey = ''sk1''\<rparr> 0])\<rparr>)"
proof -
  let ?k = "\<lparr>APIKey = ''pk1'', SecretAPIKey = ''sk1''\<rparr>"
  let ?h = "\<lambda>a::addr. ?k"
  have h: "?h(b := ?k) = ?h" for b
    by auto
  have bad: "domain_convert (example_domain\<lparr>domain_SecurityLock := ''2''\<rparr>) =
      Inl (ExpectedSecurityLock ''2'')"
    by (simp add: domain_convert_def example_domain_def Number_String_def)
  have page: "convert_each (\<lambda>d. Return (domain_convert d))
      (example_domain\<lparr>domain_SecurityLock := ''2''\<rparr> # replicate 999 example_domain) [] [] =
      Return (None # replicate 999 (Some example_Domain), [ExpectedSecurityLock ''2''])"
    by (simp add: convert_each_Return bad example_domain_convert List.map_filter_simps
        map_filter_replicate_None)
  have call: "Client_DomainList plain_stdlib Marshal_body Unmarshal_body scripted_Client 0
      \<lparr>heap = ?h, brk = 1,
       net = ([page_body (example_domain\<lparr>domain_SecurityLock := ''2''\<rparr>
                          # replicate 999 example_domain),
               page_body (replicate 400 example_domain)], [])\<rparr> =
      (Return (None # replicate 999 (Some example_Domain), [ExpectedSecurityLock ''2'']),
       \<lparr>heap = ?h, brk = 2,
        net = ([page_body (replicate 400 example_domain)], [listAll_request ?k 0])\<rparr>)"
    using scripted_DomainList [where b = 1 and h = ?h and start = 0
        and ds = "example_domain\<lparr>domain_SecurityLock := ''2''\<rparr> # replicate 999 example_domain"
        and script = "[page_body (replicate 400 example_domain)]" and log = "[]"]
    by (simp only: page h) simp
  show ?thesis
    unfolding Read_def using call
    by (subst Read_pages.simps) (simp add: AddError_def plain_stdlib_def)
qed

text \<open>
  Claim C7, amended. When the requests of \<^verbatim>\<open>DomainList\<close> at the offsets 0, 1000, 2000, ...
  are answered without error by the pages of a sequence in which every page but the last has
  1000 records and the last has fewer, and every record of the pages converts without
  error, \<^verbatim>\<open>Read\<close> ends, leaving the world as those calls leave it, with no diagnostic and
  with one model for each record of the pages, in order: the five strings of the wire
  record, its security lock, and its \<^verbatim>\<open>NotLocal\<close> for the other three booleans. On a world
  that records the offsets, the record is exactly 0, 1000, 2000, ..., one offset for each
  page.
\<close>

theorem Read_pages_until_short_page:
  assumes "serves_pages L Marshal Unmarshal c 0 \<sigma> pages \<sigma>'"
    and "\<forall>w \<in> set (concat pages). \<exists>d. domain_convert w = Inr d"
    and "pages \<noteq> []"
    and "\<forall>p \<in> set (butlast pages). length p = 1000"
    and "length (last pages) < 1000"
  shows "Read L Marshal Unmarshal c \<sigma> =
           Some (Return
             (map (\<lambda>w. \<lparr>domainModel_Domain = domain_Domain w,
                        domainModel_Status = domain_Status w,
                        domainModel_TLD = domain_TLD w,
                        domainModel_CreateDate = domain_CreateDate w,
                        domainModel_ExpireDate = domain_ExpireDate w,
                        domainModel_SecurityLock = (domain_SecurityLock w = ''1''),
                        domainModel_WhoisPrivacy = (domain_NotLocal w = ''1''),
                        domainModel_AutoRenew = (domain_NotLocal w = ''1''),
                        domainModel_NotLocal = (domain_NotLocal w = ''1'')\<rparr>)
                (concat pages),
              []), \<sigma>')
       \<and> Read_pages (Quote L) (logged (Client_DomainList L Marshal Unmarshal c)) 0 [] (\<sigma>, []) =
           Some (Return
             (map (\<lambda>w. \<lparr>domainModel_Domain = domain_Domain w,
                        domainModel_Status = domain_Status w,
                        domainModel_TLD = domain_TLD w,
                        domainModel_CreateDate = domain_CreateDate w,
                        domainModel_ExpireDate = domain_ExpireDate w,
                        domainModel_SecurityLock = (domain_SecurityLock w = ''1''),
                        domainModel_WhoisPrivacy = (domain_NotLocal w = ''1''),
                        domainModel_AutoRenew = (domain_NotLocal w = ''1''),
                        domainModel_NotLocal = (domain_NotLocal w = ''1'')\<rparr>)
                (concat pages),
              []),
             (\<sigma>', map (\<lambda>i. 1000 * word_of_nat i) [0..<length pages]))"
proof -
  let ?ds = "map (map (\<lambda>w. projr (domain_convert w))) pages"
  have s: "serves (Client_DomainList L Marshal Unmarshal c) 0 \<sigma> ?ds \<sigma>'"
    using assms(1,2) by (rule serves_pages_serves)
  have p: "?ds \<noteq> []" "\<forall>p \<in> set (butlast ?ds). length p = 1000" "length (last ?ds) < 1000"
    using assms(3,4,5) by (simp_all add: map_butlast [symmetric] last_map)
  have m: "map to_domainModel (concat ?ds) =
      map (\<lambda>w. \<lparr>domainModel_Domain = domain_Domain w, domainModel_Status = domain_Status w,
                domainModel_TLD = domain_TLD w, domainModel_CreateDate = domain_CreateDate w,
                domainModel_ExpireDate = domain_ExpireDate w,
                domainModel_SecurityLock = (domain_SecurityLock w = ''1''),
                domainModel_WhoisPrivacy = (domain_NotLocal w = ''1''),
                domainModel_AutoRenew = (domain_NotLocal w = ''1''),
                domainModel_NotLocal = (domain_NotLocal w = ''1'')\<rparr>) (concat pages)"
    using models_of_pages [OF assms(2)] by (simp add: map_concat)
  have a: "Read_pages (Quote L) (Client_DomainList L Marshal Unmarshal c) 0 [] \<sigma> =
      Some (Return (map to_domainModel (concat ?ds), []), \<sigma>')"
    using Read_pages_serves [OF s p, of "Quote L" "[]"] by simp
  have b: "Read_pages (Quote L) (logged (Client_DomainList L Marshal Unmarshal c)) 0 []
      (\<sigma>, []) =
      Some (Return (map to_domainModel (concat ?ds), []),
            (\<sigma>', map (\<lambda>i. 1000 * word_of_nat i) [0..<length pages]))"
    using Read_pages_serves [OF serves_logged [OF s, of "[]"] p, of "Quote L" "[]"] by simp
  show ?thesis
    using a b by (simp only: Read_def m)
qed

text \<open>
  Claim C7, amended, on the scripted network with pages of 1000, 1000 and 400 domains:
  three requests, with \<^verbatim>\<open>Start\<close> 0, 1000 and 2000, and 2400 models.
\<close>

theorem Read_pages_until_short_page_witness:
  "Read plain_stdlib Marshal_body Unmarshal_body scripted_Client
     \<lparr>heap = (\<lambda>a. \<lparr>APIKey = ''pk1'', SecretAPIKey = ''sk1''\<rparr>), brk = 1,
      net = ([page_body (replicate 1000 example_domain),
              page_body (replicate 1000 example_domain),
              page_body (replicate 400 example_domain)], [])\<rparr>
   = Some (Return
       (replicate 1000
          \<lparr>domainModel_Domain = ''example.com'', domainModel_Status = ''ACTIVE'',
           domainModel_TLD = ''com'', domainModel_CreateDate = ''2020-01-01 00:00:00'',
           domainModel_ExpireDate = ''2030-01-01 00:00:00'', domainModel_SecurityLock = True,
           domainModel_WhoisPrivacy = False, domainModel_AutoRenew = False,
           domainModel_NotLocal = False\<rparr>
        @ replicate 1000
          \<lparr>domainModel_Domain = ''example.com'', domainModel_Status = ''ACTIVE'',
           domainModel_TLD = ''com'', domainModel_CreateDate = ''2020-01-01 00:00:00'',
           domainModel_ExpireDate = ''2030-01-01 00:00:00'', domainModel_SecurityLock = True,
           domainModel_WhoisPrivacy = False, domainModel_AutoRenew = False,
           domainModel_NotLocal = False\<rparr>
        @ replicate 400
          \<lparr>domainModel_Domain = ''example.com'', domainModel_Status = ''ACTIVE'',
           domainModel_TLD = ''com'', domainModel_CreateDate = ''2020-01-01 00:00:00'',
           domainModel_ExpireDate = ''2030-01-01 00:00:00'', domainModel_SecurityLock = True,
           domainModel_WhoisPrivacy = False, domainModel_AutoRenew = False,
           domainModel_NotLocal = False\<rparr>,
        []),
      \<lparr>heap = (\<lambda>a. \<lparr>APIKey = ''pk1'', SecretAPIKey = ''sk1''\<rparr>), brk = 4,
       net = ([], [listAll_request \<lparr>APIKey = ''pk1'', SecretAPIKey = ''sk1''\<rparr> 0,
                   listAll_request \<lparr>APIKey = ''pk1'', SecretAPIKey = ''sk1''\<rparr> 1000,
                   listAll_request \<lparr>APIKey = ''pk1'', SecretAPIKey = ''sk1''\<rparr> 2000])\<rparr>)
   \<and> snd (snd (the (Read_pages
        (Quote (plain_stdlib :: ((64 word, DomainListResponse) body) stdlib))
        (logged (Client_DomainList plain_stdlib Marshal_body Unmarshal_body scripted_Client))
        0 []
        (\<lparr>heap = (\<lambda>a. \<lparr>APIKey = ''pk1'', SecretAPIKey = ''sk1''\<rparr>), brk = 1,
          net = ([page_body (replicate 1000 example_domain),
                  page_body (replicate 1000 example_domain),
                  page_body (replicate 400 example_domain)], [])\<rparr>, []))))
     = [0, 1000, 2000]"
proof -
  let ?k = "\<lparr>APIKey = ''pk1'', SecretAPIKey = ''sk1''\<rparr>"
  let ?h = "\<lambda>a::addr. ?k"
  let ?pages = "[replicate 1000 example_domain, replicate 1000 example_domain,
         replicate 400 example_domain]"
  have h: "?h(b := ?k) = ?h" for b
    by auto
  have h0: "?h(b := \<lparr>APIKey = [], SecretAPIKey = []\<rparr>, b := ?k) = ?h" for b
    by auto
  have post: "b \<noteq> 0 \<Longrightarrow>
      Client_post plain_stdlib Marshal_body Unmarshal_body scripted_Client ''domain/listAll''
       (b, start) \<lparr>Status = [], Message = [], Domains = []\<rparr>
       \<lparr>heap = ?h(b := \<lparr>APIKey = [], SecretAPIKey = []\<rparr>), brk = Suc b,
        net = (page_body ds # script, log)\<rparr> =
     (None, \<lparr>Status = ''SUCCESS'', Message = [], Domains = ds\<rparr>,
      \<lparr>heap = ?h, brk = Suc b, net = (script, log @ [listAll_request ?k start])\<rparr>)"
    for b start ds script log
    using scripted_post [where b = b and h = ?h and start = start and ds = ds
        and script = script and log = log] by (simp add: h)
  have s: "serves_pages plain_stdlib Marshal_body Unmarshal_body scripted_Client 0
      \<lparr>heap = ?h, brk = 1,
       net = ([page_body (replicate 1000 example_domain),
               page_body (replicate 1000 example_domain),
               page_body (replicate 400 example_domain)], [])\<rparr>
      ?pages
      \<lparr>heap = ?h, brk = 4,
       net = ([], [listAll_request ?k 0, listAll_request ?k 1000, listAll_request ?k 2000])\<rparr>"
    by (simp add: new_Credentials_def post Let_def)
  have c: "\<forall>w \<in> set (concat ?pages). \<exists>d. domain_convert w = Inr d"
    by (simp add: example_domain_convert)
  have p: "?pages \<noteq> []" "\<forall>p \<in> set (butlast ?pages). length p = 1000"
    "length (last ?pages) < 1000"
    by simp_all
  show ?thesis
    using Read_pages_until_short_page [OF s c p] by (simp add: example_domain_def)
qed

text \<open>
  Claim C8, on the scripted network: a page of three domains of which the second has the
  security lock "2", and a response with the status "ERROR".
\<close>

theorem listing_calls_collect_errors_witness:
  "fst (Client_DomainList plain_stdlib Marshal_body Unmarshal_body scripted_Client 0
      \<lparr>heap = (\<lambda>a. \<lparr>APIKey = ''pk1'', SecretAPIKey = ''sk1''\<rparr>), brk = 1,
       net = ([page_body [example_domain, example_domain\<lparr>domain_SecurityLock := ''2''\<rparr>,
                          example_domain]], [])\<rparr>)
   = Return ([Some example_Domain, None, Some example_Domain], [ExpectedSecurityLock ''2''])
   \<and> fst (Client_DomainList plain_stdlib Marshal_body Unmarshal_body scripted_Client 0
      \<lparr>heap = (\<lambda>a. \<lparr>APIKey = ''pk1'', SecretAPIKey = ''sk1''\<rparr>), brk = 1,
       net = ([ResponseBody \<lparr>Status = ''ERROR'', Message = ''Invalid API key.'',
                              Domains = []\<rparr>], [])\<rparr>)
   = Return ([], [ErrorStatus ''Invalid API key.''])"
proof -
  have bad: "domain_convert (example_domain\<lparr>domain_SecurityLock := ''2''\<rparr>) =
      Inl (ExpectedSecurityLock ''2'')"
    by (simp add: domain_convert_def example_domain_def Number_String_def)
  show ?thesis
    using listing_calls_collect_errors [of plain_stdlib Marshal_body Unmarshal_body
        scripted_Client 0
        "\<lparr>heap = (\<lambda>a. \<lparr>APIKey = ''pk1'', SecretAPIKey = ''sk1''\<rparr>), brk = 1,
          net = ([page_body [example_domain, example_domain\<lparr>domain_SecurityLock := ''2''\<rparr>,
                             example_domain]], [])\<rparr>"]
      listing_calls_collect_errors [of plain_stdlib Marshal_body Unmarshal_body
        scripted_Client 0
        "\<lparr>heap = (\<lambda>a. \<lparr>APIKey = ''pk1'', SecretAPIKey = ''sk1''\<rparr>), brk = 1,
          net = ([ResponseBody \<lparr>Status = ''ERROR'', Message = ''Invalid API key.'',
                                 Domains = []\<rparr>], [])\<rparr>"]
    by (simp add: new_Credentials_def Client_post_def Client_do_def setAPIKey_def
        setSecretAPIKey_def Let_def scripted_defs page_body_def example_domain_convert bad
        List.map_filter_simps)
qed

subsection \<open>Fields that \<^verbatim>\<open>encoding/json\<close> does not see\<close>

lemma Status_fields_exported: "filter (\<lambda>f. isExported (field_name f)) (Status_fields d) = Status_fields d"
  by (simp add: Status_fields_def isExported_def)

lemma typeFields_PricingResponse: "typeFields PricingResponse_fields = Status_fields 1"
  by (simp add: typeFields_def PricingResponse_fields_def Status_fields_def isExported_def
      dominates_def)

lemma typeFields_Pricing: "typeFields Pricing_fields = Pricing_fields"
  by (simp add: typeFields_def Pricing_fields_def isExported_def dominates_def)

lemma typeFields_urlforward:
  "typeFields (urlforward_fields d) =
     [\<lparr>field_name = ''ID'', field_key = ''id'', field_tagged = True,
       field_depth = d, field_omitEmpty = True\<rparr>,
      \<lparr>field_name = ''Subdomain'', field_key = ''subdomain'', field_tagged = True,
       field_depth = d, field_omitEmpty = False\<rparr>,
      \<lparr>field_name = ''Location'', field_key = ''location'', field_tagged = True,
       field_depth = d, field_omitEmpty = False\<rparr>,
      \<lparr>field_name = ''Wildcard'', field_key = ''wildcard'', field_tagged = True,
       field_depth = d, field_omitEmpty = False\<rparr>]"
  by (simp add: typeFields_def urlforward_fields_def isExported_def dominates_def)

lemma typeFields_URLForwardsResponse:
  "typeFields URLForwardsResponse_fields = URLForwardsResponse_fields"
  by (simp add: typeFields_def URLForwardsResponse_fields_def Status_fields_def isExported_def
      dominates_def)

lemma typeFields_AddURLForward:
  "typeFields (Credentials_fields 1 @ urlforward_fields 1) =
     Credentials_fields 1 @ typeFields (urlforward_fields 1)"
  by (simp add: typeFields_def urlforward_fields_def Credentials_fields_def isExported_def
      dominates_def)

lemma decoded_map_decoding: "decoded (map_decoding f d) = f (decoded d)"
  by (cases d) simp_all

lemma find_field_in: "find_field foldName fs key = Some f \<Longrightarrow> f \<in> set fs"
  by (auto simp: find_field_def find_Some_iff split: option.splits)

lemma decode_fields_invariant:
  assumes "\<And>f j v. f \<in> set fs \<Longrightarrow> P v \<Longrightarrow> P (decoded (store (field_name f) j v))"
    and "P v"
  shows "P (decoded (decode_fields foldName fs store kvs v saved))"
  using assms(2)
proof (induction kvs arbitrary: v saved)
  case Nil
  then show ?case by simp
next
  case (Cons kv kvs)
  show ?case
  proof (cases "find_field foldName fs (fst kv)")
    case None
    then show ?thesis using Cons by simp
  next
    case (Some f)
    then have "P (decoded (store (field_name f) (snd kv) v))"
      using assms(1) find_field_in Cons.prems by blast
    then show ?thesis
      using Some Cons.IH by (cases "store (field_name f) (snd kv) v") simp_all
  qed
qed

lemma decode_struct_invariant:
  assumes "\<And>f j v. f \<in> set (typeFields fs) \<Longrightarrow> P v \<Longrightarrow> P (decoded (store (field_name f) j v))"
    and "P v"
  shows "P (decoded (decode_struct foldName fs store j v))"
  using assms decode_fields_invariant [of "typeFields fs" P store v]
  by (cases j) (simp_all add: decode_struct_def)

lemma json_Unmarshal_invariant:
  assumes "\<And>j. P (decoded (dec j v))" and "P v"
  shows "P (snd (json_Unmarshal render dec b v))"
proof (cases b)
  case (Inl err)
  then show ?thesis using assms(2) by (simp add: json_Unmarshal_def)
next
  case (Inr j)
  then show ?thesis
    using assms(1) [of j] by (cases "dec j v") (simp_all add: json_Unmarshal_def)
qed

lemma Client_do_response:
  assumes "\<And>b. P (snd (Unmarshal b response))" and "P response"
  shows "P (fst (snd (Client_do L Unmarshal c method path body response \<sigma>)))"
proof -
  have u: "Unmarshal b response = (e, r) \<Longrightarrow> P r" for b e r
    using assms(1) [of b] by simp
  show ?thesis
    using assms(2) u
    by (auto simp: Client_do_def Let_def split: sum.splits prod.splits option.splits)
qed

lemma Client_post_response:
  assumes "\<And>b. P (snd (Unmarshal b res))" and "P res"
  shows "P (fst (snd (Client_post L Marshal Unmarshal c path req res \<sigma>)))"
proof -
  have "P (fst (snd (Client_do L Unmarshal c verb p body res s)))" for verb p body s
    by (rule Client_do_response) (simp_all add: assms)
  then show ?thesis
    using assms(2) by (simp add: Client_post_def Let_def split: sum.splits)
qed

lemma PricingResponse_set_pricing:
  assumes "f \<in> set (typeFields PricingResponse_fields)"
  shows "pricing (decoded (PricingResponse_set foldName (field_name f) j r)) = pricing r"
  using assms
  by (auto simp: typeFields_PricingResponse Status_fields_def PricingResponse_set_def
      decoded_map_decoding)

lemma Unmarshal_PricingResponse_pricing:
  "pricing (snd (Unmarshal_PricingResponse render foldName b r)) = pricing r"
proof -
  have "pricing (decoded (decode_struct foldName PricingResponse_fields
      (PricingResponse_set foldName) j r)) = pricing r" for j
    by (rule decode_struct_invariant [where P = "\<lambda>v. pricing v = pricing r"])
      (simp_all add: PricingResponse_set_pricing)
  then show ?thesis
    unfolding Unmarshal_PricingResponse_def
    by (intro json_Unmarshal_invariant [where P = "\<lambda>v. pricing v = pricing r"]) simp_all
qed

lemma Client_Pricing_nil:
  "fst (fst (Client_Pricing L (Unmarshal_PricingResponse render foldName) c \<sigma>)) = Map.empty"
proof -
  let ?res = "\<lparr>Status = [], Message = [], pricing = Map.empty\<rparr>"
  have "pricing (fst (snd (Client_do L (Unmarshal_PricingResponse render foldName) c ''GET''
      ''pricing/get'' None ?res \<sigma>))) = Map.empty"
    by (rule Client_do_response [where P = "\<lambda>v. pricing v = Map.empty"])
      (simp_all add: Unmarshal_PricingResponse_pricing)
  then show ?thesis
    by (simp add: Client_Pricing_def Client_get_def case_prod_beta Let_def)
qed

text \<open>
  Claim C6 (for a response with the status "SUCCESS" and a pricing mapping in its body,
  \<^verbatim>\<open>Pricing\<close> returns that mapping, every decimal string as it came) against
  \<^verbatim>\<open>(*Client).Pricing\<close>. The field \<^verbatim>\<open>pricing\<close> of the response struct is not exported, so the
  decoder never stores into it: for a body with the prices of "com" the call returns the nil
  map and no error. Decoded on its own, the same mapping does come out as it came.
\<close>

theorem Client_Pricing_returns_nil_map:
  "fst (Client_Pricing plain_stdlib (Unmarshal_PricingResponse plain_text foldName_ASCII) scripted_Client
         (scripted_world \<lparr>APIKey = ''pk1'', SecretAPIKey = ''sk1''\<rparr>
            [Inr (JObject
               [(''status'', JString ''SUCCESS''),
                (''pricing'', JObject
                   [(''com'', JObject
                       [(''registration'', JString ''9.68''),
                        (''renewal'', JString ''1,009.68''),
                        (''transfer'', JString ''9.68'')])])])]))
     = (Map.empty, None)
   \<and> decoded (decode_map (decode_struct foldName_ASCII Pricing_fields Pricing_set) Pricing_zero
        (JObject
           [(''com'', JObject
               [(''registration'', JString ''9.68''),
                (''renewal'', JString ''1,009.68''),
                (''transfer'', JString ''9.68'')])])
        Map.empty)
     = [''com'' \<mapsto> \<lparr>Pricing_Registration = ''9.68'', Pricing_Renewal = ''1,009.68'',
                      Pricing_Transfer = ''9.68'', Pricing_SpecialType = []\<rparr>]"
proof -
  let ?body = "JObject
               [(''status'', JString ''SUCCESS''),
                (''pricing'', JObject
                   [(''com'', JObject
                       [(''registration'', JString ''9.68''),
                        (''renewal'', JString ''1,009.68''),
                        (''transfer'', JString ''9.68'')])])]"
  let ?res = "\<lparr>Status = [], Message = [], pricing = Map.empty\<rparr>"
  have dec: "decode_struct foldName_ASCII PricingResponse_fields (PricingResponse_set foldName_ASCII)
      ?body ?res = Decoding \<lparr>Status = ''SUCCESS'', Message = [], pricing = Map.empty\<rparr> None"
    by (simp add: decode_struct_def typeFields_PricingResponse Status_fields_def find_field_def
        PricingResponse_set_def decode_string_def foldName_ASCII_def char_of_eq_iff)
  have un: "Unmarshal_PricingResponse plain_text foldName_ASCII (Inr ?body) ?res =
      (None, \<lparr>Status = ''SUCCESS'', Message = [], pricing = Map.empty\<rparr>)"
    by (simp add: Unmarshal_PricingResponse_def json_Unmarshal_def dec)
  have a: "fst (Client_Pricing plain_stdlib (Unmarshal_PricingResponse plain_text foldName_ASCII)
      scripted_Client (scripted_world \<lparr>APIKey = ''pk1'', SecretAPIKey = ''sk1''\<rparr> [Inr ?body]))
      = (Map.empty, None)"
    by (simp add: Client_Pricing_def Client_get_def Client_do_def Let_def un plain_stdlib_def
        scripted_Client_def scripted_def scripted_world_def getStatus_def)
  have b: "decoded (decode_map (decode_struct foldName_ASCII Pricing_fields Pricing_set) Pricing_zero
        (JObject
           [(''com'', JObject
               [(''registration'', JString ''9.68''),
                (''renewal'', JString ''1,009.68''),
                (''transfer'', JString ''9.68'')])])
        Map.empty)
     = [''com'' \<mapsto> \<lparr>Pricing_Registration = ''9.68'', Pricing_Renewal = ''1,009.68'',
                      Pricing_Transfer = ''9.68'', Pricing_SpecialType = []\<rparr>]"
    by (simp add: decode_map_def decode_struct_def typeFields_def isExported_def dominates_def
        Pricing_fields_def find_field_def Pricing_set_def decode_string_def Pricing_zero_def)
  show ?thesis
    using a b by simp
qed

lemma urlforward_set_IncludePath:
  assumes "f \<in> set (typeFields (urlforward_fields d))"
  shows "urlforward_IncludePath (decoded (urlforward_set (field_name f) j w)) =
     urlforward_IncludePath w"
  using assms
  by (auto simp: typeFields_urlforward urlforward_set_def decoded_map_decoding)

lemma decode_urlforward_IncludePath:
  "urlforward_IncludePath
     (decoded (decode_struct foldName (urlforward_fields d) urlforward_set j w)) =
   urlforward_IncludePath w"
  by (rule decode_struct_invariant
      [where P = "\<lambda>v. urlforward_IncludePath v = urlforward_IncludePath w"])
    (simp_all add: urlforward_set_IncludePath)

lemma decode_elems_all:
  assumes "\<And>j. Q (decoded (dec j zero))" and "\<forall>w \<in> set vs. Q w"
  shows "\<forall>w \<in> set (decoded (decode_elems dec zero js vs saved)). Q w"
  using assms(2)
proof (induction js arbitrary: vs saved)
  case Nil
  then show ?case by simp
next
  case (Cons j js)
  show ?case
  proof (cases "dec j zero")
    case (Decoding v s)
    then have "Q v" using assms(1) [of j] by simp
    then have "\<forall>w \<in> set (vs @ [v]). Q w" using Cons.prems by simp
    then have "\<forall>w \<in> set (decoded (decode_elems dec zero js (vs @ [v])
        (if saved = None then s else saved))). Q w"
      by (rule Cons.IH)
    then show ?thesis
      using Decoding by simp
  next
    case (Aborted v err)
    then have "Q v" using assms(1) [of j] by simp
    then show ?thesis
      using Aborted Cons.prems by simp
  qed
qed

lemma decode_slice_all:
  assumes "\<And>j. Q (decoded (dec j zero))" and "\<forall>w \<in> set vs. Q w"
  shows "\<forall>w \<in> set (decoded (decode_slice dec zero j vs)). Q w"
proof (cases j)
  case (JArray js)
  have "\<forall>w \<in> set (decoded (decode_elems dec zero js [] None)). Q w"
    by (rule decode_elems_all) (simp_all add: assms(1))
  then show ?thesis
    using JArray by (simp add: decode_slice_def)
qed (simp_all add: decode_slice_def assms(2))

lemma URLForwardsResponse_set_IncludePath:
  assumes "\<forall>w \<in> set (Forwards r). urlforward_IncludePath w = []"
  shows "\<forall>w \<in> set (Forwards (decoded (URLForwardsResponse_set foldName name j r))).
     urlforward_IncludePath w = []"
proof -
  have elem: "urlforward_IncludePath (decoded
      (decode_struct foldName (urlforward_fields 0) urlforward_set j' urlforward_zero)) = []"
    for j'
    by (simp only: decode_urlforward_IncludePath) (simp add: urlforward_zero_def)
  have slice: "\<forall>w \<in> set (decoded (decode_slice
      (decode_struct foldName (urlforward_fields 0) urlforward_set) urlforward_zero j
      (Forwards r))). urlforward_IncludePath w = []"
    by (rule decode_slice_all [where Q = "\<lambda>w. urlforward_IncludePath w = []"])
      (rule elem, rule assms)
  have eq: "Forwards (decoded (URLForwardsResponse_set foldName name j r)) =
      (if name = ''Forwards''
       then decoded (decode_slice
         (decode_struct foldName (urlforward_fields 0) urlforward_set) urlforward_zero j
         (Forwards r))
       else Forwards r)"
    by (simp add: URLForwardsResponse_set_def decoded_map_decoding)
  show ?thesis
    unfolding eq using assms slice by simp
qed

lemma Unmarshal_URLForwardsResponse_IncludePath:
  assumes "\<forall>w \<in> set (Forwards r). urlforward_IncludePath w = []"
  shows "\<forall>w \<in> set (Forwards (snd (Unmarshal_URLForwardsResponse render foldName b r))).
     urlforward_IncludePath w = []"
proof -
  let ?P = "\<lambda>v. \<forall>w \<in> set (Forwards v). urlforward_IncludePath w = []"
  have step: "?P (decoded (URLForwardsResponse_set foldName (field_name f) j v))"
    if "?P v" for f j v
    using that by (rule URLForwardsResponse_set_IncludePath)
  have "?P (decoded (decode_struct foldName URLForwardsResponse_fields
      (URLForwardsResponse_set foldName) j r))" for j
    by (rule decode_struct_invariant [where P = ?P]) (rule step, assumption, rule assms)
  then show ?thesis
    unfolding Unmarshal_URLForwardsResponse_def
    by (rule json_Unmarshal_invariant [where P = ?P]) (rule assms)
qed

lemma urlforward_convert_no_IncludePath:
  assumes "urlforward_IncludePath w = []"
  shows "urlforward_convert w =
     (case ParseInt (urlforward_ID w) of
        Inl e \<Rightarrow> Inl (FailedToParseId e)
      | Inr i \<Rightarrow> Inl (ExpectedIncludePath []))"
  using assms by (simp add: urlforward_convert_def Number_Int64_def split: sum.splits)

lemma is_digit_digit_char: "d < 10 \<Longrightarrow> is_digit (digit_char d)"
  by (drule lt10_cases) (auto simp: is_digit_def digit_char_def)

lemma digit_char_nonzero:
  "0 < d \<Longrightarrow> d < 10 \<Longrightarrow>
   digit_char d \<noteq> CHR ''0'' \<and> digit_char d \<noteq> CHR ''-''
   \<and> 49 \<le> (of_char (digit_char d) :: nat) \<and> (of_char (digit_char d) :: nat) \<le> 57"
  by (drule lt10_cases) (auto simp: digit_char_def)

lemma formatBits_digits: "\<forall>c \<in> set (formatBits u). is_digit c"
proof (induction u rule: formatBits.induct)
  case (1 u)
  show ?case
  proof (cases "u < 10")
    case True
    then show ?thesis
      by (subst formatBits.simps) (simp add: is_digit_digit_char)
  next
    case False
    then show ?thesis
      using "1.IH" by (subst formatBits.simps) (simp add: is_digit_digit_char)
  qed
qed

lemma formatBits_zero: "formatBits 0 = ''0''"
  by (subst formatBits.simps) (simp add: digit_char_def)

lemma hd_formatBits_pos:
  "0 < u \<Longrightarrow> \<exists>d. 0 < d \<and> d < 10 \<and> hd (formatBits u) = digit_char d"
proof (induction u rule: formatBits.induct)
  case (1 u)
  show ?case
  proof (cases "u < 10")
    case True
    then show ?thesis
      using "1.prems" by (subst formatBits.simps) auto
  next
    case False
    then have "0 < u div 10" by simp
    then show ?thesis
      using False "1.IH" formatBits_nonempty [of "u div 10"]
      by (subst formatBits.simps) simp
  qed
qed

lemma after_digits_Nil: "after_digits []"
  by (simp add: after_digits_def)

lemma dropWhile_digits_formatBits: "dropWhile is_digit (tl (formatBits u)) = []"
proof -
  have "\<forall>c \<in> set (tl (formatBits u)). is_digit c"
    using formatBits_digits [of u] formatBits_nonempty [of u]
    by (metis list.set_sel(2))
  then show ?thesis by simp
qed

lemma isValidNumber_formatBits:
  "isValidNumber (formatBits u) \<and> hd (formatBits u) \<noteq> CHR ''-''"
proof (cases "u = 0")
  case True
  then show ?thesis
    by (simp add: formatBits_zero isValidNumber_def after_digits_Nil)
next
  case False
  then obtain d where d: "0 < d" "d < 10" "hd (formatBits u) = digit_char d"
    using hd_formatBits_pos [of u] by auto
  show ?thesis
    using d(3) digit_char_nonzero [OF d(1,2)] formatBits_nonempty [of u]
    by (simp add: isValidNumber_def dropWhile_digits_formatBits after_digits_Nil)
qed

lemma isValidNumber_FormatInt: "isValidNumber (FormatInt i)"
proof (cases "sint i < 0")
  case True
  have "nat (- sint i) \<noteq> 0" using True by simp
  then obtain d where d: "0 < d" "d < 10" "hd (formatBits (nat (- sint i))) = digit_char d"
    using hd_formatBits_pos [of "nat (- sint i)"] by auto
  show ?thesis
    using True d(3) digit_char_nonzero [OF d(1,2)] formatBits_nonempty [of "nat (- sint i)"]
    by (simp add: FormatInt_def isValidNumber_def dropWhile_digits_formatBits after_digits_Nil)
next
  case False
  then show ?thesis
    using isValidNumber_formatBits [of "nat (sint i)"] by (simp add: FormatInt_def)
qed

lemma encode_Number_FormatInt: "encode_Number (FormatInt i) = Inr (JNumber (FormatInt i))"
  by (simp add: encode_Number_def FormatInt_nonempty isValidNumber_FormatInt)

lemma Marshal_AddURLForward_convert:
  "Marshal_AddURLForward render creds (URLForward_convert f) =
     Inr (Inr (JObject
       ([(''apikey'', JString (APIKey creds)), (''secretapikey'', JString (SecretAPIKey creds))]
        @ (case URLForward_ID f of None \<Rightarrow> [] | Some i \<Rightarrow> [(''id'', JNumber (FormatInt i))])
        @ [(''subdomain'', JString (URLForward_Subdomain f)),
           (''location'', JString (URLForward_Location f)),
           (''wildcard'', JString (if URLForward_Wildcard f then ''yes'' else ''no''))])))"
  unfolding Marshal_AddURLForward_def json_Marshal_def typeFields_AddURLForward
    typeFields_urlforward
  by (cases "URLForward_ID f")
    (simp_all add: Credentials_fields_def AddURLForward_get_def
      AddURLForward_isEmptyValue_def URLForward_convert_def encode_Number_FormatInt
      FormatInt_nonempty)

lemma Client_URLForwards_all_nil:
  assumes "Client_URLForwards L Marshal (Unmarshal_URLForwardsResponse render foldName) c
      domain \<sigma> = (Return (forwards, errs), \<sigma>')"
  shows "\<forall>x \<in> set forwards. x = None"
proof -
  let ?P = "\<lambda>v. \<forall>w \<in> set (Forwards v). urlforward_IncludePath w = []"
  let ?res = "\<lparr>Status = [], Message = [], Forwards = []\<rparr>"
  let ?post = "Client_post L Marshal (Unmarshal_URLForwardsResponse render foldName) c
      (''domain/getUrlForwarding/'' @ domain) (brk \<sigma>, ()) ?res (snd (new_Credentials \<sigma>))"
  have zero: "?P ?res" by simp
  have un: "?P (snd (Unmarshal_URLForwardsResponse render foldName b ?res))" for b
    using zero by (rule Unmarshal_URLForwardsResponse_IncludePath)
  have res: "?P (fst (snd ?post))"
    by (rule Client_post_response [where P = ?P]) (rule un, rule zero)
  have conv: "(case urlforward_convert w of Inl e \<Rightarrow> None | Inr d \<Rightarrow> Some d) = None"
    if "w \<in> set (Forwards (fst (snd ?post)))" for w
    using res that by (simp add: urlforward_convert_no_IncludePath split: sum.splits)
  obtain err r s where post: "?post = (err, r, s)"
    by (cases ?post) auto
  show ?thesis
  proof (cases err)
    case None
    then have "forwards =
        map (\<lambda>w. case urlforward_convert w of Inl e \<Rightarrow> None | Inr d \<Rightarrow> Some d) (Forwards r)"
      using assms post
      by (simp add: Client_URLForwards_def new_Credentials_def convert_each_Return)
    then show ?thesis
      using conv post by auto
  next
    case (Some e)
    then have "forwards = []"
      using assms post by (simp add: Client_URLForwards_def new_Credentials_def)
    then show ?thesis by simp
  qed
qed

text \<open>
  Claim C10, amended. In \<^verbatim>\<open>urlforward\<close> the fields \<^verbatim>\<open>Type\<close> and \<^verbatim>\<open>IncludePath\<close> both
  carry the key "type", and \<^verbatim>\<open>encoding/json\<close> drops both: no field of the struct is left
  with that key. So the body \<^verbatim>\<open>AddURLForward\<close> marshals for any \<^verbatim>\<open>URLForward\<close> has no key but
  those of the credentials, the id, the subdomain, the location and the wildcard; every
  forward decoded from any body has the empty string as \<^verbatim>\<open>IncludePath\<close>, and its conversion
  fails, at the id when the id does not parse and at the include path otherwise; and
  \<^verbatim>\<open>URLForwards\<close> never returns a forward that is not nil.
\<close>

theorem urlforward_type_key:
  "(\<forall>g \<in> set (typeFields (urlforward_fields d)).
      field_name g \<noteq> ''Type'' \<and> field_name g \<noteq> ''IncludePath'' \<and> field_key g \<noteq> ''type'')
   \<and> (\<exists>kvs. Marshal_AddURLForward render creds (URLForward_convert f) = Inr (Inr (JObject kvs))
        \<and> set (map fst kvs) \<subseteq>
            {''apikey'', ''secretapikey'', ''id'', ''subdomain'', ''location'', ''wildcard''})
   \<and> (\<forall>w \<in> set (Forwards (snd (Unmarshal_URLForwardsResponse render foldName b
                   \<lparr>Status = [], Message = [], Forwards = []\<rparr>))).
        urlforward_IncludePath w = []
        \<and> urlforward_convert w =
            (case ParseInt (urlforward_ID w) of
               Inl e \<Rightarrow> Inl (FailedToParseId e)
             | Inr i \<Rightarrow> Inl (ExpectedIncludePath [])))
   \<and> (\<forall>forwards errs \<sigma>'.
        Client_URLForwards L Marshal (Unmarshal_URLForwardsResponse render foldName) c domain \<sigma>
          = (Return (forwards, errs), \<sigma>')
        \<longrightarrow> (\<forall>x \<in> set forwards. x = None))"
proof (intro conjI)
  show "\<forall>g \<in> set (typeFields (urlforward_fields d)).
      field_name g \<noteq> ''Type'' \<and> field_name g \<noteq> ''IncludePath'' \<and> field_key g \<noteq> ''type''"
    by (simp add: typeFields_urlforward)
next
  show "\<exists>kvs. Marshal_AddURLForward render creds (URLForward_convert f) = Inr (Inr (JObject kvs))
        \<and> set (map fst kvs) \<subseteq>
            {''apikey'', ''secretapikey'', ''id'', ''subdomain'', ''location'', ''wildcard''}"
    by (cases "URLForward_ID f") (simp_all add: Marshal_AddURLForward_convert)
next
  let ?res = "\<lparr>Status = [], Message = [], Forwards = []\<rparr>"
  have "\<forall>w \<in> set (Forwards (snd (Unmarshal_URLForwardsResponse render foldName b ?res))).
      urlforward_IncludePath w = []"
    by (rule Unmarshal_URLForwardsResponse_IncludePath) simp
  then show "\<forall>w \<in> set (Forwards (snd (Unmarshal_URLForwardsResponse render foldName b ?res))).
        urlforward_IncludePath w = []
        \<and> urlforward_convert w =
            (case ParseInt (urlforward_ID w) of
               Inl e \<Rightarrow> Inl (FailedToParseId e)
             | Inr i \<Rightarrow> Inl (ExpectedIncludePath []))"
    using urlforward_convert_no_IncludePath by blast
next
  show "\<forall>forwards errs \<sigma>'.
        Client_URLForwards L Marshal (Unmarshal_URLForwardsResponse render foldName) c domain \<sigma>
          = (Return (forwards, errs), \<sigma>')
        \<longrightarrow> (\<forall>x \<in> set forwards. x = None)"
    using Client_URLForwards_all_nil by blast
qed

lemmas decode_defs =
  Unmarshal_URLForwardsResponse_def json_Unmarshal_def decode_struct_def typeFields_def
  isExported_def dominates_def URLForwardsResponse_fields_def Status_fields_def
  urlforward_fields_def find_field_def foldName_ASCII_def char_of_eq_iff
  URLForwardsResponse_set_def decode_slice_def urlforward_set_def urlforward_zero_def
  decode_Number_def decode_string_def isValidNumber_def after_digits_def is_digit_def

lemma decode_forwards:
  "Unmarshal_URLForwardsResponse plain_text foldName_ASCII
     (Inr (JObject
        [(''status'', JString ''SUCCESS''),
         (''forwards'', JArray
            [JObject
               [(''id'', JString ''22049216''), (''subdomain'', JString ''blog''),
                (''location'', JString ''https://example.org''),
                (''type'', JString ''temporary''), (''includePath'', JString ''no''),
                (''wildcard'', JString ''yes'')]])]))
     \<lparr>Status = [], Message = [], Forwards = []\<rparr>
   = (None,
      \<lparr>Status = ''SUCCESS'', Message = [],
       Forwards =
         [\<lparr>urlforward_ID = ''22049216'', urlforward_Subdomain = ''blog'',
           urlforward_Location = ''https://example.org'', urlforward_Type = [],
           urlforward_IncludePath = [], urlforward_Wildcard = ''yes''\<rparr>]\<rparr>)"
  by (simp add: decode_defs)

lemma decode_forwards_without_id:
  "Unmarshal_URLForwardsResponse plain_text foldName_ASCII
     (Inr (JObject
        [(''status'', JString ''SUCCESS''),
         (''forwards'', JArray
            [JObject
               [(''subdomain'', JString ''blog''),
                (''location'', JString ''https://example.org''),
                (''type'', JString ''temporary''), (''includePath'', JString ''no''),
                (''wildcard'', JString ''yes'')]])]))
     \<lparr>Status = [], Message = [], Forwards = []\<rparr>
   = (None,
      \<lparr>Status = ''SUCCESS'', Message = [],
       Forwards =
         [\<lparr>urlforward_ID = [], urlforward_Subdomain = ''blog'',
           urlforward_Location = ''https://example.org'', urlforward_Type = [],
           urlforward_IncludePath = [], urlforward_Wildcard = ''yes''\<rparr>]\<rparr>)"
  by (simp add: decode_defs)

lemma ParseInt_22049216: "ParseInt ''22049216'' = Inr 22049216"
  by (simp add: ParseInt_def ParseUint_def digit_val_def)

lemma scripted_URLForwards:
  "fst (Client_URLForwards plain_stdlib (Marshal_Credentials plain_text)
      (Unmarshal_URLForwardsResponse plain_text foldName_ASCII) scripted_Client ''example.com''
      (scripted_world \<lparr>APIKey = ''pk1'', SecretAPIKey = ''sk1''\<rparr>
         [Inr (JObject
            [(''status'', JString ''SUCCESS''),
             (''forwards'', JArray
                [JObject
                   [(''id'', JString ''22049216''), (''subdomain'', JString ''blog''),
                    (''location'', JString ''https://example.org''),
                    (''type'', JString ''temporary''), (''includePath'', JString ''no''),
                    (''wildcard'', JString ''yes'')]])])]))
   = Return ([None], [ExpectedIncludePath []])"
  by (simp add: Client_URLForwards_def new_Credentials_def Client_post_def Client_do_def
      setAPIKey_def setSecretAPIKey_def Let_def plain_stdlib_def scripted_Client_def scripted_def
      scripted_world_def getStatus_def Marshal_Credentials_def json_Marshal_def typeFields_def
      isExported_def dominates_def Credentials_fields_def Credentials_get_def decode_forwards
      urlforward_convert_def Number_Int64_def ParseInt_22049216)

text \<open>
  Claim C10, amended, on the scripted network: the body of one forward with the id
  "22049216", as the registrar sends it.
\<close>

theorem urlforward_type_key_witness:
  "typeFields (urlforward_fields 0) \<noteq> []
   \<and> Forwards (snd (Unmarshal_URLForwardsResponse plain_text foldName_ASCII
        (Inr (JObject
           [(''status'', JString ''SUCCESS''),
            (''forwards'', JArray
               [JObject
                  [(''id'', JString ''22049216''), (''subdomain'', JString ''blog''),
                   (''location'', JString ''https://example.org''),
                   (''type'', JString ''temporary''), (''includePath'', JString ''no''),
                   (''wildcard'', JString ''yes'')]])]))
        \<lparr>Status = [], Message = [], Forwards = []\<rparr>))
     = [\<lparr>urlforward_ID = ''22049216'', urlforward_Subdomain = ''blog'',
         urlforward_Location = ''https://example.org'', urlforward_Type = [],
         urlforward_IncludePath = [], urlforward_Wildcard = ''yes''\<rparr>]
   \<and> urlforward_convert
       \<lparr>urlforward_ID = ''22049216'', urlforward_Subdomain = ''blog'',
        urlforward_Location = ''https://example.org'', urlforward_Type = [],
        urlforward_IncludePath = [], urlforward_Wildcard = ''yes''\<rparr>
     = Inl (ExpectedIncludePath [])
   \<and> fst (Client_URLForwards plain_stdlib (Marshal_Credentials plain_text)
        (Unmarshal_URLForwardsResponse plain_text foldName_ASCII) scripted_Client ''example.com''
        (scripted_world \<lparr>APIKey = ''pk1'', SecretAPIKey = ''sk1''\<rparr>
           [Inr (JObject
              [(''status'', JString ''SUCCESS''),
               (''forwards'', JArray
                  [JObject
                     [(''id'', JString ''22049216''), (''subdomain'', JString ''blog''),
                      (''location'', JString ''https://example.org''),
                      (''type'', JString ''temporary''), (''includePath'', JString ''no''),
                      (''wildcard'', JString ''yes'')]])])]))
     = Return ([None], [ExpectedIncludePath []])"
proof -
  let ?body = "Inr (JObject
           [(''status'', JString ''SUCCESS''),
            (''forwards'', JArray
               [JObject
                  [(''id'', JString ''22049216''), (''subdomain'', JString ''blog''),
                   (''location'', JString ''https://example.org''),
                   (''type'', JString ''temporary''), (''includePath'', JString ''no''),
                   (''wildcard'', JString ''yes'')]])])"
  let ?\<sigma> = "scripted_world \<lparr>APIKey = ''pk1'', SecretAPIKey = ''sk1''\<rparr> [?body]"
  let ?run = "Client_URLForwards plain_stdlib (Marshal_Credentials plain_text)
        (Unmarshal_URLForwardsResponse plain_text foldName_ASCII) scripted_Client ''example.com''
        ?\<sigma>"
  have run: "?run = (Return ([None], [ExpectedIncludePath []]), snd ?run)"
    using scripted_URLForwards by (metis prod.collapse)
  have fields: "typeFields (urlforward_fields 0) \<noteq> []"
    by (simp add: typeFields_urlforward)
  show ?thesis
    using urlforward_type_key [where d = 0 and b = ?body and render = plain_text
        and foldName = foldName_ASCII and L = plain_stdlib
        and Marshal = "Marshal_Credentials plain_text" and c = scripted_Client
        and domain = "''example.com''" and \<sigma> = ?\<sigma>]
      run fields
    by (simp add: decode_forwards ParseInt_22049216 scripted_URLForwards)
qed

text \<open>
  Claim C10 says that the conversion of a decoded forward always fails at the include path.
  A forward that comes without id fails at the id.
\<close>

theorem urlforward_convert_fails_at_id_counterexample:
  "Forwards (snd (Unmarshal_URLForwardsResponse plain_text foldName_ASCII
        (Inr (JObject
           [(''status'', JString ''SUCCESS''),
            (''forwards'', JArray
               [JObject
                  [(''subdomain'', JString ''blog''),
                   (''location'', JString ''https://example.org''),
                   (''type'', JString ''temporary''), (''includePath'', JString ''no''),
                   (''wildcard'', JString ''yes'')]])]))
        \<lparr>Status = [], Message = [], Forwards = []\<rparr>))
     = [\<lparr>urlforward_ID = [], urlforward_Subdomain = ''blog'',
         urlforward_Location = ''https://example.org'', urlforward_Type = [],
         urlforward_IncludePath = [], urlforward_Wildcard = ''yes''\<rparr>]
   \<and> urlforward_convert
       \<lparr>urlforward_ID = [], urlforward_Subdomain = ''blog'',
        urlforward_Location = ''https://example.org'', urlforward_Type = [],
        urlforward_IncludePath = [], urlforward_Wildcard = ''yes''\<rparr>
     = Inl (FailedToParseId (NumError ''ParseInt'' [] ErrSyntax))"
  by (simp add: decode_forwards_without_id urlforward_convert_def Number_Int64_def ParseInt_empty)

end
